theory Spec2Isabelle
  imports Main
begin

section \<open>JavaScript values\<close>

text \<open>
  The handler of \<^verbatim>\<open>src/api/index.js\<close> works on JSON data: the request body, the bodies of
  the upstream replies and the completion of the language model. A value is one of the
  JSON values or \<^verbatim>\<open>undefined\<close>. A number is identified by the decimal text that
  \<^verbatim>\<open>String(n)\<close> yields for it (\<^verbatim>\<open>0\<close> and \<^verbatim>\<open>-0\<close> both yield \<^verbatim>\<open>"0"\<close>); an object is the list
  of its own properties, each name once. A string is the list of the bytes of its UTF-8
  encoding; a surrogate of the JavaScript string that has no partner (JSON text can
  hold one, as an escaped code unit such as \<^verbatim>\<open>D800\<close>) is written in the same three-byte
  form, \<^verbatim>\<open>0xED\<close> followed by a byte from \<^verbatim>\<open>0xA0\<close> on.
\<close>

datatype jsval =
    JUndefined
  | JNull
  | JBool bool
  | JNum string
  | JStr string
  | JArr "jsval list"
  | JObj "(string \<times> jsval) list"

text \<open>
  The errors the code can meet: \<^verbatim>\<open>new Error(msg)\<close> thrown by the code itself, and the
  engine's \<^verbatim>\<open>TypeError\<close>, \<^verbatim>\<open>SyntaxError\<close> and \<^verbatim>\<open>URIError\<close>, each with its message (the
  wording of an engine's message is the engine's: \<^verbatim>\<open>URI malformed\<close> is that of Node.js).
\<close>

datatype js_error = Error string | TypeError string | SyntaxError string | URIError string

fun message :: "js_error \<Rightarrow> string" where
  "message (Error m) = m"
| "message (TypeError m) = m"
| "message (SyntaxError m) = m"
| "message (URIError m) = m"

text \<open>Sequencing of steps that may throw: the first error ends the computation.\<close>

fun andThen :: "js_error + 'a \<Rightarrow> ('a \<Rightarrow> js_error + 'b) \<Rightarrow> js_error + 'b" where
  "andThen (Inl e) f = Inl e"
| "andThen (Inr x) f = f x"

fun mapM :: "('a \<Rightarrow> js_error + 'b) \<Rightarrow> 'a list \<Rightarrow> js_error + 'b list" where
  "mapM f [] = Inr []"
| "mapM f (x # xs) =
     (case f x of
        Inl e \<Rightarrow> Inl e
      | Inr y \<Rightarrow> (case mapM f xs of Inl e \<Rightarrow> Inl e | Inr ys \<Rightarrow> Inr (y # ys)))"

text \<open>Truthiness, as \<^verbatim>\<open>!x\<close>, \<^verbatim>\<open>x || y\<close> and \<^verbatim>\<open>x ? a : b\<close> read it.\<close>

fun truthy :: "jsval \<Rightarrow> bool" where
  "truthy JUndefined = False"
| "truthy JNull = False"
| "truthy (JBool b) = b"
| "truthy (JNum n) = (n \<noteq> ''0'' \<and> n \<noteq> ''NaN'')"
| "truthy (JStr s) = (s \<noteq> [])"
| "truthy (JArr xs) = True"
| "truthy (JObj kvs) = True"

fun isArray :: "jsval \<Rightarrow> bool" where
  "isArray (JArr xs) = True"
| "isArray v = False"

fun join_strings :: "string \<Rightarrow> string list \<Rightarrow> string" where
  "join_strings sep [] = []"
| "join_strings sep [x] = x"
| "join_strings sep (x # y # ys) = x @ sep @ join_strings sep (y # ys)"

text \<open>
  String conversion, as a template literal \<^verbatim>\<open>`${x}`\<close> and \<^verbatim>\<open>encodeURIComponent(x)\<close> apply
  it: an array is joined with commas, \<^verbatim>\<open>null\<close> and \<^verbatim>\<open>undefined\<close> elements as the empty
  text, and a plain object reads \<^verbatim>\<open>[object Object]\<close>. (An object that carries a
  property of its own named \<^verbatim>\<open>toString\<close>, on which the engine's conversion throws, is
  outside the model.)
\<close>

fun toString :: "jsval \<Rightarrow> string" and elem_text :: "jsval \<Rightarrow> string" where
  "toString JUndefined = ''undefined''"
| "toString JNull = ''null''"
| "toString (JBool b) = (if b then ''true'' else ''false'')"
| "toString (JNum n) = n"
| "toString (JStr s) = s"
| "toString (JArr xs) = join_strings '','' (map elem_text xs)"
| "toString (JObj kvs) = ''[object Object]''"
| "elem_text JUndefined = []"
| "elem_text JNull = []"
| "elem_text (JBool b) = toString (JBool b)"
| "elem_text (JNum n) = toString (JNum n)"
| "elem_text (JStr s) = toString (JStr s)"
| "elem_text (JArr xs) = toString (JArr xs)"
| "elem_text (JObj kvs) = toString (JObj kvs)"

text \<open>\<^verbatim>\<open>xs.join(sep)\<close> on an array of values.\<close>

definition array_join :: "string \<Rightarrow> jsval list \<Rightarrow> string" where
  "array_join sep xs = join_strings sep (map elem_text xs)"

text \<open>
  Property access \<^verbatim>\<open>x.k\<close> for the names the code reads (\<^verbatim>\<open>items\<close>, \<^verbatim>\<open>snippet\<close>,
  \<^verbatim>\<open>title\<close>, \<^verbatim>\<open>id\<close>, \<^verbatim>\<open>channelId\<close>, \<^verbatim>\<open>access_token\<close>, \<^verbatim>\<open>data\<close>, \<^verbatim>\<open>children\<close>,
  \<^verbatim>\<open>choices\<close>, \<^verbatim>\<open>message\<close>, \<^verbatim>\<open>content\<close>, \<^verbatim>\<open>candidates\<close>, \<^verbatim>\<open>parts\<close>, \<^verbatim>\<open>text\<close> and the four
  body fields): on \<^verbatim>\<open>null\<close> and \<^verbatim>\<open>undefined\<close> the engine throws, an object gives its own
  property, and every other value has no property of these names.
\<close>

fun get :: "jsval \<Rightarrow> string \<Rightarrow> js_error + jsval" where
  "get JUndefined k = Inl (TypeError (''Cannot read properties of undefined (reading '' @ k @ '')''))"
| "get JNull k = Inl (TypeError (''Cannot read properties of null (reading '' @ k @ '')''))"
| "get (JObj kvs) k = (case map_of kvs k of None \<Rightarrow> Inr JUndefined | Some v \<Rightarrow> Inr v)"
| "get v k = Inr JUndefined"

text \<open>
  \<^verbatim>\<open>x[0]\<close>: the first element of an array, the first character of a string, the property
  \<^verbatim>\<open>"0"\<close> of an object.
\<close>

fun index0 :: "jsval \<Rightarrow> js_error + jsval" where
  "index0 JUndefined = Inl (TypeError ''Cannot read properties of undefined (reading 0)'')"
| "index0 JNull = Inl (TypeError ''Cannot read properties of null (reading 0)'')"
| "index0 (JArr xs) = (case xs of [] \<Rightarrow> Inr JUndefined | x # _ \<Rightarrow> Inr x)"
| "index0 (JStr s) = (case s of [] \<Rightarrow> Inr JUndefined | c # _ \<Rightarrow> Inr (JStr [c]))"
| "index0 (JObj kvs) = (case map_of kvs ''0'' of None \<Rightarrow> Inr JUndefined | Some v \<Rightarrow> Inr v)"
| "index0 v = Inr JUndefined"

text \<open>\<^verbatim>\<open>x.length === 0\<close>, for a value \<^verbatim>\<open>x\<close> that is neither \<^verbatim>\<open>null\<close> nor \<^verbatim>\<open>undefined\<close>.\<close>

fun length_is_zero :: "jsval \<Rightarrow> bool" where
  "length_is_zero (JArr xs) = (xs = [])"
| "length_is_zero (JStr s) = (s = [])"
| "length_is_zero (JObj kvs) = (map_of kvs ''length'' = Some (JNum ''0''))"
| "length_is_zero v = False"

text \<open>
  \<^verbatim>\<open>x?.map(f) || []\<close>: nothing for \<^verbatim>\<open>null\<close> and \<^verbatim>\<open>undefined\<close>, the mapped array for an
  array (an array is truthy, also when empty), and a \<^verbatim>\<open>TypeError\<close> for every other
  value, which has no callable \<^verbatim>\<open>map\<close>.
\<close>

fun optional_map :: "(jsval \<Rightarrow> js_error + 'a) \<Rightarrow> jsval \<Rightarrow> js_error + 'a list" where
  "optional_map f JUndefined = Inr []"
| "optional_map f JNull = Inr []"
| "optional_map f (JArr xs) = mapM f xs"
| "optional_map f v = Inl (TypeError ''map is not a function'')"

text \<open>
  \<^verbatim>\<open>s.replace(pat, rep)\<close> with a string pattern: the first occurrence of \<^verbatim>\<open>pat\<close> in
  \<^verbatim>\<open>s\<close> is replaced, wherever it stands.
\<close>

fun replace :: "string \<Rightarrow> string \<Rightarrow> string \<Rightarrow> string" where
  "replace [] pat rep = (if pat = [] then rep else [])"
| "replace (c # cs) pat rep =
     (if take (length pat) (c # cs) = pat then rep @ drop (length pat) (c # cs)
      else c # replace cs pat rep)"

text \<open>
  \<^verbatim>\<open>encodeURIComponent(s)\<close>: the engine throws a \<^verbatim>\<open>URIError\<close> when \<^verbatim>\<open>s\<close> has a surrogate
  without its partner; otherwise every byte of the UTF-8 encoding is written as
  \<^verbatim>\<open>%XX\<close>, but for the letters, the digits and \<^verbatim>\<open>- _ . ! ~ * ' ( )\<close>, which stay.
\<close>

fun lone_surrogate :: "string \<Rightarrow> bool" where
  "lone_surrogate [] = False"
| "lone_surrogate [c] = False"
| "lone_surrogate (c # d # cs) =
     ((c = CHR 0xED \<and> (0xA0 :: nat) \<le> of_char d) \<or> lone_surrogate (d # cs))"

definition unreserved :: "char \<Rightarrow> bool" where
  \<open>unreserved c \<longleftrightarrow>
     c \<in> set (''ABCDEFGHIJKLMNOPQRSTUVWXYZ'' @ ''abcdefghijklmnopqrstuvwxyz''
               @ ''0123456789'' @ ''-_.!~*'()'')\<close>

definition hex_digit :: "nat \<Rightarrow> char" where
  "hex_digit n = ''0123456789ABCDEF'' ! (n mod 16)"

definition percent :: "char \<Rightarrow> string" where
  "percent c = [CHR ''%'', hex_digit (of_char c div 16), hex_digit (of_char c mod 16)]"

definition encodeURIComponent :: "string \<Rightarrow> js_error + string" where
  "encodeURIComponent s =
     (if lone_surrogate s then Inl (URIError ''URI malformed'')
      else Inr (concat (map (\<lambda>c. if unreserved c then [c] else percent c) s)))"

section \<open>The upstream services and the module state\<close>

text \<open>
  The repository holds two copies of the pipeline, which differ in the language-model
  provider, the wording of the prompt, its placeholder and the \<^verbatim>\<open>User-Agent\<close> sent to
  Reddit.
\<close>

datatype variant = OpenAI | Gemini

fun userAgent :: "variant \<Rightarrow> string" where
  "userAgent OpenAI = ''ExonVercel/1.0''"
| "userAgent Gemini = ''VercelContentStrategyEngine/1.0''"

text \<open>
  An upstream HTTP request, by the endpoint and the values the code interpolates into
  its URL, headers and body:
  \<^item> \<open>YouTubeVideoSearch q maxResults key\<close>: \<^verbatim>\<open>/youtube/v3/search?type=video&order=relevance\<close>,
    with the encoded query \<open>q\<close>;
  \<^item> \<open>YouTubeChannelSearch q key\<close>: \<^verbatim>\<open>/youtube/v3/search?type=channel&maxResults=1\<close>,
    with the encoded channel name \<open>q\<close>;
  \<^item> \<open>YouTubeChannelVideos channelId maxResults key\<close>: \<^verbatim>\<open>/youtube/v3/search?type=video&order=date\<close>;
  \<^item> \<open>RedditAccessToken clientId clientSecret agent\<close>: the client-credentials exchange
    \<^verbatim>\<open>POST /api/v1/access_token\<close>;
  \<^item> \<open>RedditHot subreddit token limit agent\<close>: \<^verbatim>\<open>/r/<subreddit>/hot\<close> with a bearer token;
  \<^item> \<open>OpenAIChatCompletion prompt key\<close> and \<open>GeminiGenerateContent prompt key\<close>: the
    completion call.
\<close>

datatype request =
    YouTubeVideoSearch string nat string
  | YouTubeChannelSearch string string
  | YouTubeChannelVideos string nat string
  | RedditAccessToken string string string
  | RedditHot string string nat string
  | OpenAIChatCompletion string string
  | GeminiGenerateContent string string

text \<open>
  What \<^verbatim>\<open>await fetch(url, options)\<close> gives: a rejection (network error), or a response
  with its \<^verbatim>\<open>ok\<close> flag, its status text and what \<^verbatim>\<open>res.json()\<close> resolves to (\<open>None\<close>
  when the body is not JSON and \<^verbatim>\<open>res.json()\<close> rejects).
\<close>

datatype fetch_result =
    NetworkError string
  | Response bool string "jsval option"

text \<open>
  The world outside the module: the reply to a request when \<open>n\<close> upstream requests have
  gone before it (counted from the start of the process), and \<^verbatim>\<open>JSON.parse\<close>
  (\<open>None\<close> for a \<^verbatim>\<open>SyntaxError\<close>).
\<close>

record world =
  fetch :: "nat \<Rightarrow> request \<Rightarrow> fetch_result"
  JSON_parse :: "string \<Rightarrow> jsval option"

text \<open>\<^verbatim>\<open>let redditToken = { value: null, expires: 0 }\<close>\<close>

record token =
  token_value :: jsval
  expires :: int

text \<open>
  The state of the process: the module-level token cache, and the log of the upstream
  requests issued so far (the log is not in the code; it is what the claims about
  upstream calls count).
\<close>

record state =
  redditToken :: token
  calls :: "request list"

definition initial_state :: state where
  "initial_state = \<lparr> redditToken = \<lparr> token_value = JNull, expires = 0 \<rparr>, calls = [] \<rparr>"

definition do_fetch :: "world \<Rightarrow> request \<Rightarrow> state \<Rightarrow> fetch_result \<times> state" where
  "do_fetch w r s = (fetch w (length (calls s)) r, s\<lparr> calls := calls s @ [r] \<rparr>)"

text \<open>\<^verbatim>\<open>await fetch(url).then(res => res.json())\<close>: the status is not looked at.\<close>

fun json_of :: "fetch_result \<Rightarrow> jsval option" where
  "json_of (NetworkError m) = None"
| "json_of (Response ok statusText b) = b"

section \<open>The source fetchers\<close>

text \<open>
  Each fetcher wraps its request in \<^verbatim>\<open>try { ... } catch (error) { ...; return [] }\<close>, and
  the state it leaves is the log with its requests added. What it writes to the console
  is not modelled.

  \<^verbatim>\<open>{ title: ... }\<close>, the projection of a search result or a post.
\<close>

datatype video = Video (title: jsval)

text \<open>\<^verbatim>\<open>data.items?.map(item => ({ title: item.snippet.title })) || []\<close>\<close>

definition item_titles :: "jsval \<Rightarrow> js_error + video list" where
  "item_titles data =
     andThen (get data ''items'')
       (optional_map (\<lambda>item.
          andThen (get item ''snippet'') (\<lambda>snippet.
          andThen (get snippet ''title'') (\<lambda>t. Inr (Video t)))))"

text \<open>\<open>try { ... } catch (error) { return [] }\<close>\<close>

fun or_empty :: "js_error + 'a list \<Rightarrow> 'a list" where
  "or_empty (Inl e) = []"
| "or_empty (Inr xs) = xs"

text \<open>
  \<^verbatim>\<open>searchYouTubeVideos\<close> builds its URL, and so calls \<^verbatim>\<open>encodeURIComponent(query)\<close>,
  before its \<^verbatim>\<open>try\<close>: on a query that cannot be encoded the promise it returns is rejected
  and no request is sent. Everything after that is inside the \<^verbatim>\<open>try\<close>.
\<close>

definition searchYouTubeVideos ::
  "world \<Rightarrow> string \<Rightarrow> string \<Rightarrow> nat \<Rightarrow> state \<Rightarrow> (js_error + video list) \<times> state" where
  "searchYouTubeVideos w query apiKey maxResults s =
     (case encodeURIComponent query of
        Inl e \<Rightarrow> (Inl e, s)
      | Inr q \<Rightarrow>
          (case do_fetch w (YouTubeVideoSearch q maxResults apiKey) s of
             (NetworkError m, s1) \<Rightarrow> (Inr [], s1)
           | (Response ok statusText b, s1) \<Rightarrow>
               if \<not> ok then (Inr [], s1)
               else (case b of
                       None \<Rightarrow> (Inr [], s1)
                     | Some data \<Rightarrow> (Inr (or_empty (item_titles data)), s1))))"

text \<open>
  The whole body of \<^verbatim>\<open>getChannelVideos\<close> is inside its \<^verbatim>\<open>try\<close>, the encoding of the
  channel name included: a name that cannot be encoded gives the empty list, and no
  request is sent.
\<close>

definition getChannelVideos ::
  "world \<Rightarrow> jsval \<Rightarrow> string \<Rightarrow> nat \<Rightarrow> state \<Rightarrow> video list \<times> state" where
  "getChannelVideos w channelName apiKey maxResults s =
     (case encodeURIComponent (toString channelName) of
        Inl e \<Rightarrow> ([], s)
      | Inr q \<Rightarrow>
     (case do_fetch w (YouTubeChannelSearch q apiKey) s of
        (r1, s1) \<Rightarrow>
          (case json_of r1 of
             None \<Rightarrow> ([], s1)
           | Some channelResponse \<Rightarrow>
               (case get channelResponse ''items'' of
                  Inl e \<Rightarrow> ([], s1)
                | Inr items \<Rightarrow>
                    if \<not> truthy items \<or> length_is_zero items then ([], s1)
                    else (case andThen (andThen (index0 items) (\<lambda>i. get i ''id''))
                                 (\<lambda>d. get d ''channelId'') of
                            Inl e \<Rightarrow> ([], s1)
                          | Inr channelId \<Rightarrow>
                              (case do_fetch w
                                      (YouTubeChannelVideos (toString channelId) maxResults apiKey) s1 of
                                 (r2, s2) \<Rightarrow>
                                   (case json_of r2 of
                                      None \<Rightarrow> ([], s2)
                                    | Some videosResponse \<Rightarrow>
                                        (or_empty (item_titles videosResponse), s2))))))))"

text \<open>
  The token cache. \<^verbatim>\<open>Date.now()\<close> is read once for the test of the cached token and
  once more, after the exchange, for the new expiry: \<open>now\<close> and \<open>now'\<close> are the two
  readings, in milliseconds.
\<close>

definition getRedditAccessToken ::
  "variant \<Rightarrow> world \<Rightarrow> int \<Rightarrow> int \<Rightarrow> string \<Rightarrow> string \<Rightarrow> state \<Rightarrow> jsval \<times> state" where
  "getRedditAccessToken v w now now' clientId clientSecret s =
     (if truthy (token_value (redditToken s)) \<and> expires (redditToken s) > now
      then (token_value (redditToken s), s)
      else (case do_fetch w (RedditAccessToken clientId clientSecret (userAgent v)) s of
              (r, s1) \<Rightarrow>
                (case json_of r of
                   None \<Rightarrow> (JNull, s1)
                 | Some response \<Rightarrow>
                     (case get response ''access_token'' of
                        Inl e \<Rightarrow> (JNull, s1)
                      | Inr access_token \<Rightarrow>
                          if \<not> truthy access_token then (JNull, s1)
                          else (access_token,
                                s1\<lparr> redditToken :=
                                      \<lparr> token_value = access_token,
                                        expires = now' + 50 * 60 * 1000 \<rparr> \<rparr>)))))"

text \<open>\<^verbatim>\<open>response.data?.children?.map(post => ({ title: post.data.title })) || []\<close>\<close>

definition post_titles :: "jsval \<Rightarrow> js_error + video list" where
  "post_titles response =
     andThen (get response ''data'') (\<lambda>d.
       if d = JUndefined \<or> d = JNull then Inr []
       else andThen (get d ''children'')
              (optional_map (\<lambda>post.
                 andThen (get post ''data'') (\<lambda>pd.
                 andThen (get pd ''title'') (\<lambda>t. Inr (Video t))))))"

text \<open>
  \<^verbatim>\<open>getSubredditPosts\<close> builds its URL and headers before its \<^verbatim>\<open>try\<close>; these are string
  interpolations only, which do not throw in this model.
\<close>

definition getSubredditPosts ::
  "variant \<Rightarrow> world \<Rightarrow> string \<Rightarrow> jsval \<Rightarrow> nat \<Rightarrow> state \<Rightarrow> video list \<times> state" where
  "getSubredditPosts v w subreddit accessToken limit s =
     (case do_fetch w (RedditHot subreddit (toString accessToken) limit (userAgent v)) s of
        (r, s1) \<Rightarrow>
          (case json_of r of
             None \<Rightarrow> ([], s1)
           | Some response \<Rightarrow> (or_empty (post_titles response), s1)))"

section \<open>The strategy synthesizer\<close>

text \<open>
  \<^verbatim>\<open>JSON.parse(x)\<close> converts \<^verbatim>\<open>x\<close> to a string first; a text that is not JSON is a
  \<^verbatim>\<open>SyntaxError\<close>.
\<close>

definition JSON_parse_value :: "world \<Rightarrow> jsval \<Rightarrow> js_error + jsval" where
  "JSON_parse_value w x =
     (case JSON_parse w (toString x) of
        None \<Rightarrow> Inl (SyntaxError ''Unexpected token'')
      | Some v \<Rightarrow> Inr v)"

text \<open>\<^verbatim>\<open>JSON.parse(data.choices[0].message.content)\<close>\<close>

definition openai_content :: "jsval \<Rightarrow> js_error + jsval" where
  "openai_content data =
     andThen (get data ''choices'') (\<lambda>choices.
     andThen (index0 choices) (\<lambda>choice.
     andThen (get choice ''message'') (\<lambda>m. get m ''content'')))"

text \<open>\<^verbatim>\<open>JSON.parse(data.candidates[0].content.parts[0].text)\<close>\<close>

definition gemini_content :: "jsval \<Rightarrow> js_error + jsval" where
  "gemini_content data =
     andThen (get data ''candidates'') (\<lambda>candidates.
     andThen (index0 candidates) (\<lambda>candidate.
     andThen (get candidate ''content'') (\<lambda>content.
     andThen (get content ''parts'') (\<lambda>parts.
     andThen (index0 parts) (\<lambda>part. get part ''text'')))))"

definition openai_failure :: string where
  "openai_failure = ''Failed to get a valid response from the OpenAI API.''"

definition gemini_failure :: string where
  "gemini_failure = ''Failed to get a valid response from the Gemini API.''"

definition callOpenAI_API ::
  "world \<Rightarrow> string \<Rightarrow> string \<Rightarrow> state \<Rightarrow> (js_error + jsval) \<times> state" where
  "callOpenAI_API w prompt apiKey s =
     (case do_fetch w (OpenAIChatCompletion prompt apiKey) s of
        (NetworkError m, s1) \<Rightarrow> (Inl (Error openai_failure), s1)
      | (Response ok statusText b, s1) \<Rightarrow>
          if \<not> ok then (Inl (Error openai_failure), s1)
          else (case b of
                  None \<Rightarrow> (Inl (Error openai_failure), s1)
                | Some data \<Rightarrow>
                    (case andThen (openai_content data) (JSON_parse_value w) of
                       Inl e \<Rightarrow> (Inl (Error openai_failure), s1)
                     | Inr result \<Rightarrow> (Inr result, s1))))"

definition callGeminiAPI ::
  "world \<Rightarrow> string \<Rightarrow> string \<Rightarrow> state \<Rightarrow> (js_error + jsval) \<times> state" where
  "callGeminiAPI w prompt apiKey s =
     (case do_fetch w (GeminiGenerateContent prompt apiKey) s of
        (NetworkError m, s1) \<Rightarrow> (Inl (Error gemini_failure), s1)
      | (Response ok statusText b, s1) \<Rightarrow>
          if \<not> ok then (Inl (Error gemini_failure), s1)
          else (case b of
                  None \<Rightarrow> (Inl (Error gemini_failure), s1)
                | Some data \<Rightarrow>
                    (case andThen (gemini_content data) (JSON_parse_value w) of
                       Inl e \<Rightarrow> (Inl (Error gemini_failure), s1)
                     | Inr result \<Rightarrow> (Inr result, s1))))"

section \<open>The prompt assembler\<close>

text \<open>
  \<^verbatim>\<open>{ channel, videos }\<close> and \<^verbatim>\<open>{ subreddit: sub, posts }\<close>, as the fan-out collects
  them.
\<close>

datatype channel_videos = ChannelVideos (channel: jsval) (videos: "video list")

datatype subreddit_posts = SubredditPosts (subreddit: jsval) (posts: "video list")

text \<open>\<^verbatim>\<open>topVideos.map(v => v.title).join(', ')\<close>\<close>

definition topVideoTitles :: "video list \<Rightarrow> string" where
  "topVideoTitles topVideos = array_join '', '' (map title topVideos)"

text \<open>
  \<^verbatim>\<open>competitorVideosData.map(c => `${c.channel}: ${c.videos.map(v => v.title).join(', ')}`).join(' | ')\<close>
\<close>

definition competitorVideoTitles :: "channel_videos list \<Rightarrow> string" where
  "competitorVideoTitles competitorVideosData =
     join_strings '' | ''
       (map (\<lambda>c. toString (channel c) @ '': '' @ array_join '', '' (map title (videos c)))
            competitorVideosData)"

text \<open>
  \<^verbatim>\<open>redditPostsData.map(s => `${s.subreddit}: ${s.posts.map(p => p.title).join(', ')}`).join(' | ')\<close>
\<close>

definition redditPostTitles :: "subreddit_posts list \<Rightarrow> string" where
  "redditPostTitles redditPostsData =
     join_strings '' | ''
       (map (\<lambda>s. toString (subreddit s) @ '': '' @ array_join '', '' (map title (posts s)))
            redditPostsData)"

text \<open>\<^verbatim>\<open>x || d\<close> on a string \<^verbatim>\<open>x\<close>: the empty string is falsy.\<close>

definition or_default :: "string \<Rightarrow> string \<Rightarrow> string" where
  "or_default x d = (if x = [] then d else x)"

fun placeholder :: "variant \<Rightarrow> string" where
  "placeholder OpenAI = ''No data collected.''"
| "placeholder Gemini = ''N/A''"

text \<open>
  The fixed text of the template: what stands before the audience, and the request for
  the JSON schema that follows the three data sections.
\<close>

definition prompt_intro_openai :: string where
  \<open>prompt_intro_openai =
       ''\<newline>You are a world-class content strategist and data analyst named Exon. Your task is to generate a complete content strategy.''
     @ ''\<newline>I have provided real-time data from YouTube and Reddit. You must simulate the data for X (Twitter) and Google Trends based on your expert knowledge.''
     @ ''\<newline>''
     @ ''\<newline>Client Details:''
     @ ''\<newline>- Target Audience: ''\<close>

definition prompt_schema_openai :: string where
  \<open>prompt_schema_openai =
       ''\<newline>''
     @ ''\<newline>Based on all of this, provide a response in a single, valid JSON object with the following four keys: "trendDiscovery", "contentAnalysis", "competitorReport", "strategyCalendar".''
     @ ''\<newline>''
     @ ''\<newline>1. "trendDiscovery": An object for trend analysis.''
     @ ''\<newline>   - "youtubeTrends": Analyze the provided LIVE YouTube data to identify 3-5 key trends.''
     @ ''\<newline>   - "redditTrends": Analyze the provided LIVE Reddit data to identify 3-5 key community topics.''
     @ ''\<newline>   - "simulatedXTrends": Act as an expert on X (Twitter). Simulate the top 3-5 trending topics relevant to the target audience.''
     @ ''\<newline>   - "simulatedGoogleTrends": Act as a search analyst. Simulate the top 3-5 rising search queries on Google Trends.''
     @ ''\<newline>''
     @ ''\<newline>2. "contentAnalysis": An object that deconstructs successful content (winningFormats, toneOfVoice, engagementTriggers, optimalTiming).''
     @ ''\<newline>''
     @ ''\<newline>3. "competitorReport": An object analyzing the specified competitors (youtubeCompetitorAnalysis, inferredXStrategy).''
     @ ''\<newline>''
     @ ''\<newline>4. "strategyCalendar": An array of 30 objects for a 30-day content plan. Each object must have the following structure: { "day": number, "platform": "YouTube/Instagram/Reddit", "title": "A catchy, fully-formed content title", "format": "e.g., YouTube Short, IG Reel", "description": "A 1-2 sentence description." }\<newline>''\<close>

definition prompt_intro_gemini :: string where
  \<open>prompt_intro_gemini =
       ''\<newline>You are a world-class content strategist and data analyst. I have gathered real-time data from YouTube and Reddit for a client. Your task is to generate a complete content strategy based on this data and your own expert knowledge.''
     @ ''\<newline>''
     @ ''\<newline>Client Details:''
     @ ''\<newline>- Target Audience: ''\<close>

definition prompt_schema_gemini :: string where
  \<open>prompt_schema_gemini =
       ''\<newline>''
     @ ''\<newline>Based on all of this, provide a response in a single JSON object with the following four keys: "trendDiscovery", "contentAnalysis", "competitorReport", "strategyCalendar".''
     @ ''\<newline>''
     @ ''\<newline>1. "trendDiscovery": An object containing trend analysis from four key platforms.''
     @ ''\<newline>   - "youtubeTrends": Analyze the provided YouTube data to identify 3-5 key trends.''
     @ ''\<newline>   - "redditTrends": Analyze the provided Reddit data to identify 3-5 key community topics and sentiments.''
     @ ''\<newline>   - "simulatedXTrends": Act as an expert on X (Twitter). Based on your knowledge, simulate the top 3-5 trending topics and content formats (e.g., threads, memes) relevant to the target audience on X right now.''
     @ ''\<newline>   - "simulatedGoogleTrends": Act as an expert search analyst. Based on your knowledge, simulate the top 3-5 rising search queries on Google Trends relevant to the target audience.''
     @ ''\<newline>''
     @ ''\<newline>2. "contentAnalysis": An object that deconstructs what makes high-performing content successful.''
     @ ''\<newline>   - "winningFormats": Identify the most effective content formats.''
     @ ''\<newline>   - "toneOfVoice": Describe the most successful tone of voice.''
     @ ''\<newline>   - "engagementTriggers": List common engagement triggers.''
     @ ''\<newline>   - "optimalTiming": Suggest the best days and times to post.''
     @ ''\<newline>''
     @ ''\<newline>3. "competitorReport": An object analyzing the specified competitors.''
     @ ''\<newline>   - "youtubeCompetitorAnalysis": Summarize their content strategy, topic focus, and posting frequency.''
     @ ''\<newline>   - "inferredXStrategy": Infer what their strategy on X would likely be.''
     @ ''\<newline>''
     @ ''\<newline>4. "strategyCalendar": An array of 30 objects, representing a full 30-day content plan. Each object must have the following structure: { "day": number, "platform": "YouTube/Instagram/Reddit", "title": "A catchy, fully-formed content title", "format": "e.g., YouTube Short, IG Reel, Reddit Thread", "description": "A 1-2 sentence description." }\<newline>''\<close>

fun prompt_intro :: "variant \<Rightarrow> string" where
  "prompt_intro OpenAI = prompt_intro_openai"
| "prompt_intro Gemini = prompt_intro_gemini"

fun prompt_schema :: "variant \<Rightarrow> string" where
  "prompt_schema OpenAI = prompt_schema_openai"
| "prompt_schema Gemini = prompt_schema_gemini"

text \<open>The three data sections, each with its fallback.\<close>

definition topSection :: "variant \<Rightarrow> video list \<Rightarrow> string" where
  "topSection v topVideos = or_default (topVideoTitles topVideos) (placeholder v)"

definition competitorSection :: "variant \<Rightarrow> channel_videos list \<Rightarrow> string" where
  "competitorSection v competitorVideosData =
     or_default (competitorVideoTitles competitorVideosData) (placeholder v)"

definition redditSection :: "variant \<Rightarrow> subreddit_posts list \<Rightarrow> string" where
  "redditSection v redditPostsData =
     or_default (redditPostTitles redditPostsData) (placeholder v)"

definition masterPrompt ::
  "variant \<Rightarrow> jsval \<Rightarrow> jsval \<Rightarrow> video list \<Rightarrow> channel_videos list \<Rightarrow> subreddit_posts list
     \<Rightarrow> string" where
  \<open>masterPrompt v audience goal topVideos competitorVideosData redditPostsData =
     prompt_intro v @ toString audience
     @ ''\<newline>- Primary Goal: '' @ toString goal
     @ ''\<newline>\<newline>Live Data Collected:''
     @ ''\<newline>- Top YouTube Videos: '' @ topSection v topVideos
     @ ''\<newline>- Competitor YouTube Videos: '' @ competitorSection v competitorVideosData
     @ ''\<newline>- Top Reddit Posts: '' @ redditSection v redditPostsData
     @ prompt_schema v\<close>

section \<open>The request handler\<close>

record http_request =
  req_method :: string
  req_body :: jsval

text \<open>
  \<^verbatim>\<open>process.env\<close>: each secret is a string or absent. The first copy of the handler reads
  \<^verbatim>\<open>OPENAI_API_KEY\<close>, the second \<^verbatim>\<open>GEMINI_API_KEY\<close>.
\<close>

record environment =
  YOUTUBE_API_KEY :: "string option"
  REDDIT_CLIENT_ID :: "string option"
  REDDIT_CLIENT_SECRET :: "string option"
  OPENAI_API_KEY :: "string option"
  GEMINI_API_KEY :: "string option"

fun llm_key :: "variant \<Rightarrow> environment \<Rightarrow> string option" where
  "llm_key OpenAI env = OPENAI_API_KEY env"
| "llm_key Gemini env = GEMINI_API_KEY env"

text \<open>\<^verbatim>\<open>!KEY\<close> is false for a non-empty string only.\<close>

fun present :: "string option \<Rightarrow> bool" where
  "present None = False"
| "present (Some k) = (k \<noteq> [])"

fun secret :: "string option \<Rightarrow> string" where
  "secret None = ''undefined''"
| "secret (Some k) = k"

text \<open>What the handler writes to \<^verbatim>\<open>res\<close>: the status, the headers set, the JSON body.\<close>

record response =
  status :: nat
  headers :: "(string \<times> string) list"
  body :: "jsval option"

definition cors_headers :: "(string \<times> string) list" where
  "cors_headers =
     [(''Access-Control-Allow-Origin'', ''*''),
      (''Access-Control-Allow-Methods'', ''POST, OPTIONS''),
      (''Access-Control-Allow-Headers'', ''Content-Type'')]"

definition error_response :: "nat \<Rightarrow> string \<Rightarrow> response" where
  "error_response code msg =
     \<lparr> status = code, headers = cors_headers, body = Some (JObj [(''error'', JStr msg)]) \<rparr>"

definition bad_request :: response where
  "bad_request =
     error_response 400 ''Invalid request body. Ensure all required fields are present.''"

definition configuration_error :: response where
  "configuration_error = error_response 500 ''Server configuration error.''"

definition internal_error :: "js_error \<Rightarrow> response" where
  "internal_error e =
     \<lparr> status = 500, headers = cors_headers,
       body = Some (JObj [(''error'', JStr ''An internal server error occurred.''),
                          (''details'', JStr (message e))]) \<rparr>"

definition success :: "jsval \<Rightarrow> response" where
  "success result =
     \<lparr> status = 200, headers = cors_headers @ [(''Content-Type'', ''application/json'')],
       body = Some result \<rparr>"

fun elements :: "jsval \<Rightarrow> jsval list" where
  "elements (JArr xs) = xs"
| "elements v = []"

text \<open>
  The fan-out. The handler starts the keyword search, one \<^verbatim>\<open>getChannelVideos\<close> per
  channel and the token request together and waits for them with \<^verbatim>\<open>Promise.all\<close>. The
  three groups share no state but the log, so the model runs them one after the other,
  each to its end: the requests issued and the values collected are those of every
  interleaving.

  \<^verbatim>\<open>competitorYouTubeChannels.map(channel => getChannelVideos(channel, KEY, 3).then(videos => ({ channel, videos })))\<close>
\<close>

fun allChannelVideos ::
  "world \<Rightarrow> string \<Rightarrow> jsval list \<Rightarrow> state \<Rightarrow> channel_videos list \<times> state" where
  "allChannelVideos w apiKey [] s = ([], s)"
| "allChannelVideos w apiKey (c # cs) s =
     (case getChannelVideos w c apiKey 3 s of
        (vs, s1) \<Rightarrow>
          (case allChannelVideos w apiKey cs s1 of
             (rest, s2) \<Rightarrow> (ChannelVideos c vs # rest, s2)))"

text \<open>
  \<^verbatim>\<open>relevantSubreddits.map(sub => getSubredditPosts(sub.replace('r/',''), token, 3).then(posts => ({ subreddit: sub, posts })))\<close>:
  \<^verbatim>\<open>sub.replace\<close> is a function for a string only; on any other element the engine
  throws, and \<^verbatim>\<open>map\<close> stops there.
\<close>

fun allSubredditPosts ::
  "variant \<Rightarrow> world \<Rightarrow> jsval \<Rightarrow> jsval list \<Rightarrow> state
     \<Rightarrow> (js_error + subreddit_posts list) \<times> state" where
  "allSubredditPosts v w token [] s = (Inr [], s)"
| "allSubredditPosts v w token (JStr sub # subs) s =
     (case getSubredditPosts v w (replace sub ''r/'' []) token 3 s of
        (ps, s1) \<Rightarrow>
          (case allSubredditPosts v w token subs s1 of
             (Inl e, s2) \<Rightarrow> (Inl e, s2)
           | (Inr rest, s2) \<Rightarrow> (Inr (SubredditPosts (JStr sub) ps # rest), s2)))"
| "allSubredditPosts v w token (x # subs) s =
     (Inl (TypeError ''sub.replace is not a function''), s)"

text \<open>
  \<^verbatim>\<open>getRedditAccessToken(ID, SECRET).then(token => token ? Promise.all(...) : [])\<close>
\<close>

definition redditPosts ::
  "variant \<Rightarrow> world \<Rightarrow> int \<Rightarrow> int \<Rightarrow> string \<Rightarrow> string \<Rightarrow> jsval list \<Rightarrow> state
     \<Rightarrow> (js_error + subreddit_posts list) \<times> state" where
  "redditPosts v w now now' clientId clientSecret subs s =
     (case getRedditAccessToken v w now now' clientId clientSecret s of
        (token, s1) \<Rightarrow>
          if truthy token then allSubredditPosts v w token subs s1 else (Inr [], s1))"

fun callLLM ::
  "variant \<Rightarrow> world \<Rightarrow> string \<Rightarrow> string \<Rightarrow> state \<Rightarrow> (js_error + jsval) \<times> state" where
  "callLLM OpenAI w prompt apiKey s = callOpenAI_API w prompt apiKey s"
| "callLLM Gemini w prompt apiKey s = callGeminiAPI w prompt apiKey s"

text \<open>
  \<^verbatim>\<open>await Promise.all([searchYouTubeVideos(...), Promise.all(...), getRedditAccessToken(...).then(...)])\<close>:
  the three results, or the first rejection. All three groups are started before
  \<^verbatim>\<open>Promise.all\<close> looks at any of them, and each runs to its end whatever becomes of the
  others. A rejected keyword search is rejected from the start, so its error is the one
  that \<^verbatim>\<open>Promise.all\<close> passes on; the second group never rejects.
\<close>

definition collectData ::
  "variant \<Rightarrow> world \<Rightarrow> environment \<Rightarrow> int \<Rightarrow> int \<Rightarrow> jsval \<Rightarrow> jsval \<Rightarrow> jsval list \<Rightarrow> jsval list
     \<Rightarrow> state
     \<Rightarrow> (js_error + video list \<times> channel_videos list \<times> subreddit_posts list) \<times> state" where
  "collectData v w env now now' audience goal channels subs s =
     (case searchYouTubeVideos w (toString audience @ '' '' @ toString goal)
             (secret (YOUTUBE_API_KEY env)) 3 s of
        (search, s1) \<Rightarrow>
          (case allChannelVideos w (secret (YOUTUBE_API_KEY env)) channels s1 of
             (competitorVideosData, s2) \<Rightarrow>
               (case redditPosts v w now now' (secret (REDDIT_CLIENT_ID env))
                       (secret (REDDIT_CLIENT_SECRET env)) subs s2 of
                  (reddit, s3) \<Rightarrow>
                    (case search of
                       Inl e \<Rightarrow> (Inl e, s3)
                     | Inr topVideos \<Rightarrow>
                         (case reddit of
                            Inl e \<Rightarrow> (Inl e, s3)
                          | Inr redditPostsData \<Rightarrow>
                              (Inr (topVideos, competitorVideosData, redditPostsData), s3))))))"

text \<open>
  The part of the handler after validation: data collection, prompt, synthesis. The
  result is the response written, or the exception that reaches the handler's
  \<^verbatim>\<open>catch\<close>.
\<close>

definition process ::
  "variant \<Rightarrow> world \<Rightarrow> environment \<Rightarrow> int \<Rightarrow> int \<Rightarrow> jsval \<Rightarrow> jsval \<Rightarrow> jsval list \<Rightarrow> jsval list
     \<Rightarrow> state \<Rightarrow> (js_error + response) \<times> state" where
  "process v w env now now' audience goal channels subs s =
     (case collectData v w env now now' audience goal channels subs s of
        (Inl e, s3) \<Rightarrow> (Inl e, s3)
      | (Inr (topVideos, competitorVideosData, redditPostsData), s3) \<Rightarrow>
          (case callLLM v w
                  (masterPrompt v audience goal topVideos competitorVideosData redditPostsData)
                  (secret (llm_key v env)) s3 of
             (Inl e, s4) \<Rightarrow> (Inl e, s4)
           | (Inr result, s4) \<Rightarrow> (Inr (success result), s4)))"

text \<open>The \<^verbatim>\<open>try\<close> block: destructuring of \<^verbatim>\<open>req.body || {}\<close>, the two checks, the pipeline.\<close>

definition handler_try ::
  "variant \<Rightarrow> world \<Rightarrow> environment \<Rightarrow> int \<Rightarrow> int \<Rightarrow> http_request \<Rightarrow> state
     \<Rightarrow> (js_error + response) \<times> state" where
  "handler_try v w env now now' req s =
     (let b = (if truthy (req_body req) then req_body req else JObj []) in
      case andThen (get b ''audience'') (\<lambda>audience.
           andThen (get b ''goal'') (\<lambda>goal.
           andThen (get b ''competitorYouTubeChannels'') (\<lambda>competitorYouTubeChannels.
           andThen (get b ''relevantSubreddits'') (\<lambda>relevantSubreddits.
             Inr (audience, goal, competitorYouTubeChannels, relevantSubreddits))))) of
        Inl e \<Rightarrow> (Inl e, s)
      | Inr (audience, goal, competitorYouTubeChannels, relevantSubreddits) \<Rightarrow>
          if \<not> truthy audience \<or> \<not> truthy goal \<or> \<not> isArray competitorYouTubeChannels
             \<or> \<not> isArray relevantSubreddits
          then (Inr bad_request, s)
          else if \<not> present (YOUTUBE_API_KEY env) \<or> \<not> present (REDDIT_CLIENT_ID env)
                  \<or> \<not> present (REDDIT_CLIENT_SECRET env) \<or> \<not> present (llm_key v env)
          then (Inr configuration_error, s)
          else process v w env now now' audience goal (elements competitorYouTubeChannels)
                 (elements relevantSubreddits) s)"

text \<open>
  \<^verbatim>\<open>module.exports = async (req, res) => { ... }\<close>: the response written and the state
  the process is left in (\<open>now\<close> and \<open>now'\<close> are the readings of the clock that the
  token cache takes).
\<close>

definition handler ::
  "variant \<Rightarrow> world \<Rightarrow> environment \<Rightarrow> int \<Rightarrow> int \<Rightarrow> http_request \<Rightarrow> state
     \<Rightarrow> response \<times> state" where
  "handler v w env now now' req s =
     (if req_method req = ''OPTIONS''
      then (\<lparr> status = 204, headers = cors_headers, body = None \<rparr>, s)
      else if req_method req \<noteq> ''POST''
      then (error_response 405 ''Method Not Allowed'', s)
      else (case handler_try v w env now now' req s of
              (Inl e, s1) \<Rightarrow> (internal_error e, s1)
            | (Inr r, s1) \<Rightarrow> (r, s1)))"

section \<open>The vocabulary of the properties\<close>

text \<open>
  The value that the destructuring of \<^verbatim>\<open>req.body || {}\<close> binds to the field \<open>k\<close>
  (\<^verbatim>\<open>undefined\<close> for a field that is missing).
\<close>

definition field :: "jsval \<Rightarrow> string \<Rightarrow> jsval" where
  "field b k =
     (case get (if truthy b then b else JObj []) k of Inl e \<Rightarrow> JUndefined | Inr x \<Rightarrow> x)"

text \<open>
  A valid request body, as the interface documents it: \<^verbatim>\<open>audience\<close> and \<^verbatim>\<open>goal\<close> are
  non-empty strings, \<^verbatim>\<open>competitorYouTubeChannels\<close> and \<^verbatim>\<open>relevantSubreddits\<close> are arrays
  of strings. \<open>valid_request b a g cs ss\<close> reads: the body \<open>b\<close> is valid and carries the
  audience \<open>a\<close>, the goal \<open>g\<close>, the channels \<open>cs\<close> and the subreddits \<open>ss\<close>.
\<close>

definition valid_request ::
  "jsval \<Rightarrow> string \<Rightarrow> string \<Rightarrow> string list \<Rightarrow> string list \<Rightarrow> bool" where
  "valid_request b a g cs ss \<longleftrightarrow>
     a \<noteq> [] \<and> g \<noteq> []
     \<and> get b ''audience'' = Inr (JStr a)
     \<and> get b ''goal'' = Inr (JStr g)
     \<and> get b ''competitorYouTubeChannels'' = Inr (JArr (map JStr cs))
     \<and> get b ''relevantSubreddits'' = Inr (JArr (map JStr ss))"

text \<open>The four configuration secrets are present.\<close>

definition config_present :: "variant \<Rightarrow> environment \<Rightarrow> bool" where
  "config_present v env \<longleftrightarrow>
     present (YOUTUBE_API_KEY env) \<and> present (REDDIT_CLIENT_ID env)
     \<and> present (REDDIT_CLIENT_SECRET env) \<and> present (llm_key v env)"

text \<open>The cached token is present and its expiry is strictly after \<open>now\<close>.\<close>

definition cache_valid :: "int \<Rightarrow> state \<Rightarrow> bool" where
  "cache_valid now s \<longleftrightarrow>
     truthy (token_value (redditToken s)) \<and> now < expires (redditToken s)"

text \<open>
  The access token that a reply to the credential exchange grants: the truthy
  \<^verbatim>\<open>access_token\<close> of its JSON body, if there is one.
\<close>

definition granted_token :: "fetch_result \<Rightarrow> jsval option" where
  "granted_token r =
     (case json_of r of
        None \<Rightarrow> None
      | Some response \<Rightarrow>
          (case get response ''access_token'' of
             Inl e \<Rightarrow> None
           | Inr t \<Rightarrow> if truthy t then Some t else None))"

text \<open>
  The upstream routine that a request belongs to. Every run of \<^verbatim>\<open>getChannelVideos\<close>
  starts with one channel search, and every run of \<^verbatim>\<open>getSubredditPosts\<close> is one
  listing of hot posts.
\<close>

datatype endpoint =
  KeywordSearch | ChannelSearch | ChannelVideoList | TokenExchange | SubredditHot | Completion

fun endpoint_of :: "request \<Rightarrow> endpoint" where
  "endpoint_of (YouTubeVideoSearch q n k) = KeywordSearch"
| "endpoint_of (YouTubeChannelSearch q k) = ChannelSearch"
| "endpoint_of (YouTubeChannelVideos c n k) = ChannelVideoList"
| "endpoint_of (RedditAccessToken i x u) = TokenExchange"
| "endpoint_of (RedditHot r t n u) = SubredditHot"
| "endpoint_of (OpenAIChatCompletion p k) = Completion"
| "endpoint_of (GeminiGenerateContent p k) = Completion"

definition calls_to :: "endpoint \<Rightarrow> request list \<Rightarrow> request list" where
  "calls_to e tr = filter (\<lambda>r. endpoint_of r = e) tr"

text \<open>The requests issued between the states \<open>s\<close> and \<open>s'\<close>.\<close>

definition new_calls :: "state \<Rightarrow> state \<Rightarrow> request list" where
  "new_calls s s' = drop (length (calls s)) (calls s')"

text \<open>The completion request of each copy, the text it reads the result from, its error.\<close>

fun llm_request :: "variant \<Rightarrow> string \<Rightarrow> string \<Rightarrow> request" where
  "llm_request OpenAI prompt apiKey = OpenAIChatCompletion prompt apiKey"
| "llm_request Gemini prompt apiKey = GeminiGenerateContent prompt apiKey"

fun llm_content :: "variant \<Rightarrow> jsval \<Rightarrow> js_error + jsval" where
  "llm_content OpenAI data = openai_content data"
| "llm_content Gemini data = gemini_content data"

fun llm_failure :: "variant \<Rightarrow> string" where
  "llm_failure OpenAI = openai_failure"
| "llm_failure Gemini = gemini_failure"

text \<open>
  The schema that the prompt asks the model for: an object with exactly the four keys,
  whose \<^verbatim>\<open>strategyCalendar\<close> is an array of 30 entries, each an object with the keys
  \<^verbatim>\<open>day\<close>, \<^verbatim>\<open>platform\<close>, \<^verbatim>\<open>title\<close>, \<^verbatim>\<open>format\<close> and \<^verbatim>\<open>description\<close>.
\<close>

fun has_keys :: "string list \<Rightarrow> jsval \<Rightarrow> bool" where
  "has_keys ks (JObj kvs) = list_all (\<lambda>k. k \<in> set (map fst kvs)) ks"
| "has_keys ks v = False"

fun strategy_calendar :: "jsval \<Rightarrow> bool" where
  "strategy_calendar (JArr days) =
     (length days = 30
      \<and> list_all (has_keys [''day'', ''platform'', ''title'', ''format'', ''description'']) days)"
| "strategy_calendar v = False"

fun strategy_schema :: "jsval \<Rightarrow> bool" where
  "strategy_schema (JObj kvs) =
     (set (map fst kvs)
        = {''trendDiscovery'', ''contentAnalysis'', ''competitorReport'', ''strategyCalendar''}
      \<and> (case map_of kvs ''strategyCalendar'' of
            None \<Rightarrow> False
          | Some c \<Rightarrow> strategy_calendar c))"
| "strategy_schema v = False"

text \<open>The upstream requests that the handler issues for a request, in the order of the log.\<close>

definition handler_calls ::
  "variant \<Rightarrow> world \<Rightarrow> environment \<Rightarrow> int \<Rightarrow> int \<Rightarrow> http_request \<Rightarrow> state \<Rightarrow> request list" where
  "handler_calls v w env now now' req s = new_calls s (snd (handler v w env now now' req s))"

text \<open>The replies that the world gives to a run of requests issued from the state \<open>s\<close>.\<close>

definition replies :: "world \<Rightarrow> state \<Rightarrow> request list \<Rightarrow> fetch_result list" where
  "replies w s tr = map (\<lambda>(n, r). fetch w (length (calls s) + n) r) (zip [0..<length tr] tr)"

text \<open>
  The position of the first credential exchange in a run of requests, and the channel
  searches that the channel names \<open>cs\<close> give rise to: one for each name that can be
  encoded.
\<close>

definition exchange_index :: "request list \<Rightarrow> nat" where
  "exchange_index tr = length (takeWhile (\<lambda>r. endpoint_of r \<noteq> TokenExchange) tr)"

definition channel_search :: "string \<Rightarrow> string \<Rightarrow> request list" where
  "channel_search k c =
     (case encodeURIComponent c of Inl e \<Rightarrow> [] | Inr q \<Rightarrow> [YouTubeChannelSearch q k])"

definition channel_searches :: "string \<Rightarrow> string list \<Rightarrow> request list" where
  "channel_searches k cs = concat (map (channel_search k) cs)"

text \<open>
  A reply of the completion endpoint that the synthesizer cannot use: a network error, a
  status that is not a success, a body that is not JSON or does not hold the content, or
  a content that is not JSON text.
\<close>

fun bad_completion :: "variant \<Rightarrow> world \<Rightarrow> fetch_result \<Rightarrow> bool" where
  "bad_completion v w (NetworkError m) = True"
| "bad_completion v w (Response ok statusText b) =
     (\<not> ok \<or> (case b of
                 None \<Rightarrow> True
               | Some data \<Rightarrow>
                   (case llm_content v data of
                      Inl e \<Rightarrow> True
                    | Inr c \<Rightarrow> JSON_parse w (toString c) = None)))"








text \<open>A reply that is a success: an OK status and a JSON body.\<close>

fun succeeded :: "fetch_result \<Rightarrow> bool" where
  "succeeded (NetworkError m) = False"
| "succeeded (Response ok statusText b) = (ok \<and> b \<noteq> None)"

section \<open>Concrete requests and upstream worlds\<close>

text \<open>The inputs at which the properties below are evaluated.\<close>


definition env0 :: environment where
  "env0 = \<lparr> YOUTUBE_API_KEY = Some ''yt-key'', REDDIT_CLIENT_ID = Some ''id'',
            REDDIT_CLIENT_SECRET = Some ''secret'', OPENAI_API_KEY = Some ''llm-key'',
            GEMINI_API_KEY = Some ''llm-key'' \<rparr>"

definition fitness_request :: http_request where
  "fitness_request =
     \<lparr> req_method = ''POST'',
       req_body = JObj [(''audience'', JStr ''fitness beginners''),
                        (''goal'', JStr ''grow a YouTube channel''),
                        (''competitorYouTubeChannels'', JArr [JStr ''Athlean-X'']),
                        (''relevantSubreddits'', JArr [JStr ''r/fitness''])] \<rparr>"

text \<open>
  The same request with an audience that is one unpaired surrogate (the code unit D800, which
  a JSON body can carry as an escape); no URI component can be made from it.
\<close>

definition surrogate_request :: http_request where
  "surrogate_request =
     \<lparr> req_method = ''POST'',
       req_body = JObj [(''audience'', JStr [CHR 0xED, CHR 0xA0, CHR 0x80]),
                        (''goal'', JStr ''grow a YouTube channel''),
                        (''competitorYouTubeChannels'', JArr [JStr ''Athlean-X'']),
                        (''relevantSubreddits'', JArr [JStr ''r/fitness''])] \<rparr>"

definition no_goal_request :: http_request where
  "no_goal_request =
     \<lparr> req_method = ''POST'',
       req_body = JObj [(''audience'', JStr ''fitness beginners''),
                        (''competitorYouTubeChannels'', JArr []),
                        (''relevantSubreddits'', JStr ''r/fitness'')] \<rparr>"

definition empty_audience_request :: http_request where
  "empty_audience_request =
     \<lparr> req_method = ''POST'',
       req_body = JObj [(''audience'', JStr []),
                        (''goal'', JStr ''grow a YouTube channel''),
                        (''competitorYouTubeChannels'', JArr [JStr ''Athlean-X'']),
                        (''relevantSubreddits'', JArr [JStr ''r/fitness''])] \<rparr>"

definition no_body_request :: http_request where
  "no_body_request = \<lparr> req_method = ''POST'', req_body = JUndefined \<rparr>"

text \<open>A process whose cache holds a token that expires at 5000 ms.\<close>

definition cached_state :: state where
  "cached_state = \<lparr> redditToken = \<lparr> token_value = JStr ''old'', expires = 5000 \<rparr>, calls = [] \<rparr>"

text \<open>Well-formed replies of the three data endpoints and of the completion endpoint.\<close>


definition youtube_listing :: "string list \<Rightarrow> jsval" where
  "youtube_listing ts =
     JObj [(''items'', JArr (map (\<lambda>t. JObj [(''snippet'', JObj [(''title'', JStr t)])]) ts))]"

definition channel_match :: jsval where
  "channel_match = JObj [(''items'', JArr [JObj [(''id'', JObj [(''channelId'', JStr ''UC1'')])]])]"

definition reddit_listing :: jsval where
  "reddit_listing =
     JObj [(''data'', JObj [(''children'', JArr [JObj [(''data'', JObj [(''title'', JStr ''Post'')])]])])]"

fun completion_reply :: "variant \<Rightarrow> string \<Rightarrow> jsval" where
  "completion_reply OpenAI txt =
     JObj [(''choices'', JArr [JObj [(''message'', JObj [(''content'', JStr txt)])]])]"
| "completion_reply Gemini txt =
     JObj [(''candidates'',
            JArr [JObj [(''content'', JObj [(''parts'', JArr [JObj [(''text'', JStr txt)]])])]])]"

fun reply_ok :: "request \<Rightarrow> fetch_result" where
  "reply_ok (YouTubeVideoSearch q n k) = Response True ''OK'' (Some (youtube_listing [''Video A'', ''Video B'']))"
| "reply_ok (YouTubeChannelSearch q k) = Response True ''OK'' (Some channel_match)"
| "reply_ok (YouTubeChannelVideos c n k) = Response True ''OK'' (Some (youtube_listing [''Video C'']))"
| "reply_ok (RedditAccessToken i x u) = Response True ''OK'' (Some (JObj [(''access_token'', JStr ''tok'')]))"
| "reply_ok (RedditHot r t n u) = Response True ''OK'' (Some reddit_listing)"
| "reply_ok (OpenAIChatCompletion p k) = Response True ''OK'' (Some (completion_reply OpenAI ''{}''))"
| "reply_ok (GeminiGenerateContent p k) = Response True ''OK'' (Some (completion_reply Gemini ''{}''))"

definition parse_braces :: "string \<Rightarrow> jsval option" where
  "parse_braces txt = (if txt = ''{}'' then Some (JObj []) else None)"

text \<open>
  Three worlds: every upstream call succeeds (the model's completion is the text
  \<^verbatim>\<open>{}\<close>); the credential exchange fails on the network; the completion endpoint
  is down.
\<close>


definition upstream_ok :: world where
  "upstream_ok = \<lparr> fetch = (\<lambda>n. reply_ok), JSON_parse = parse_braces \<rparr>"

definition upstream_no_token :: world where
  "upstream_no_token =
     \<lparr> fetch = (\<lambda>n r. if endpoint_of r = TokenExchange then NetworkError ''fetch failed'' else reply_ok r),
       JSON_parse = parse_braces \<rparr>"

definition upstream_llm_down :: world where
  "upstream_llm_down =
     \<lparr> fetch = (\<lambda>n r. if endpoint_of r = Completion then Response False ''Service Unavailable'' None
                       else reply_ok r),
       JSON_parse = parse_braces \<rparr>"

text \<open>
  A completion that has the schema asked for, a world whose model returns it, and a world
  whose model answers in prose.
\<close>

definition day_entry :: jsval where
  "day_entry =
     JObj [(''day'', JNum ''1''), (''platform'', JStr ''YouTube''), (''title'', JStr ''Start here''),
           (''format'', JStr ''YouTube Short''), (''description'', JStr ''A first workout.'')]"

definition conforming_strategy :: jsval where
  "conforming_strategy =
     JObj [(''trendDiscovery'', JObj []), (''contentAnalysis'', JObj []),
           (''competitorReport'', JObj []), (''strategyCalendar'', JArr (replicate 30 day_entry))]"

definition upstream_conforming :: world where
  "upstream_conforming = \<lparr> fetch = (\<lambda>n. reply_ok), JSON_parse = (\<lambda>txt. Some conforming_strategy) \<rparr>"

definition upstream_llm_prose :: world where
  "upstream_llm_prose =
     \<lparr> fetch = (\<lambda>n r. case r of
                  OpenAIChatCompletion p k \<Rightarrow>
                    Response True ''OK'' (Some (completion_reply OpenAI ''Here is your plan''))
                | GeminiGenerateContent p k \<Rightarrow>
                    Response True ''OK'' (Some (completion_reply Gemini ''Here is your plan''))
                | _ \<Rightarrow> reply_ok r),
       JSON_parse = parse_braces \<rparr>"

text \<open>
  A world in which no channel name resolves (the channel search returns no item), and a
  world whose keyword search returns an entry without a title.
\<close>

definition upstream_no_channel :: world where
  "upstream_no_channel =
     \<lparr> fetch = (\<lambda>n r. if endpoint_of r = ChannelSearch
                       then Response True ''OK'' (Some (JObj [(''items'', JArr [])]))
                       else reply_ok r),
       JSON_parse = parse_braces \<rparr>"





section \<open>Auxiliary facts\<close>

lemma lone_surrogate_Cons: "c \<noteq> CHR 0xED \<Longrightarrow> lone_surrogate (c # g) = lone_surrogate g"
  by (cases g) simp_all

lemma lone_surrogate_query:
  "lone_surrogate (a @ '' '' @ g) \<longleftrightarrow> lone_surrogate a \<or> lone_surrogate g"
  by (induction a rule: lone_surrogate.induct) (auto simp add: lone_surrogate_Cons)

lemma encodeURIComponent_Inr: "encodeURIComponent x = Inr q \<Longrightarrow> \<not> lone_surrogate x"
  by (simp add: encodeURIComponent_def split: if_splits)

lemma encodeURIComponent_total: "\<not> lone_surrogate x \<Longrightarrow> \<exists>q. encodeURIComponent x = Inr q"
  by (simp add: encodeURIComponent_def)

lemma encodeURIComponent_Inl:
  "lone_surrogate x \<Longrightarrow> encodeURIComponent x = Inl (URIError ''URI malformed'')"
  by (simp add: encodeURIComponent_def)

lemma searchYouTubeVideos_state:
  "encodeURIComponent query = Inr q \<Longrightarrow>
   \<exists>vs. searchYouTubeVideos w query k n s
          = (Inr vs, s\<lparr>calls := calls s @ [YouTubeVideoSearch q n k]\<rparr>)"
  by (cases "fetch w (length (calls s)) (YouTubeVideoSearch q n k)")
     (simp_all add: searchYouTubeVideos_def do_fetch_def split: option.split)

lemma searchYouTubeVideos_rejects:
  "lone_surrogate query \<Longrightarrow>
   searchYouTubeVideos w query k n s = (Inl (URIError ''URI malformed''), s)"
  by (simp add: searchYouTubeVideos_def encodeURIComponent_def)

lemma channel_search_endpoints:
  "calls_to ChannelSearch (channel_search k x) = channel_search k x"
  "set (map endpoint_of (channel_search k x)) \<subseteq> {ChannelSearch}"
  by (cases "encodeURIComponent x"; simp add: channel_search_def calls_to_def)+

lemma getChannelVideos_state:
  "\<exists>tr. snd (getChannelVideos w c k n s)
            = s\<lparr>calls := calls s @ channel_search k (toString c) @ tr\<rparr>
     \<and> set (map endpoint_of tr) \<subseteq> {ChannelVideoList}"
proof (cases "encodeURIComponent (toString c)")
  case (Inl e)
  then show ?thesis
    by (intro exI [of _ "[]"]) (simp add: getChannelVideos_def channel_search_def)
next
  case (Inr q)
  then show ?thesis
    by (auto simp add: getChannelVideos_def channel_search_def do_fetch_def
        split: option.split sum.split)
qed

lemma calls_to_append: "calls_to e (xs @ ys) = calls_to e xs @ calls_to e ys"
  by (simp add: calls_to_def)

lemma calls_to_none: "e \<notin> set (map endpoint_of tr) \<Longrightarrow> calls_to e tr = []"
  by (induction tr) (auto simp: calls_to_def)

lemma allChannelVideos_state:
  "\<exists>tr. snd (allChannelVideos w k cs s) = s\<lparr>calls := calls s @ tr\<rparr>
     \<and> calls_to ChannelSearch tr = concat (map (\<lambda>c. channel_search k (toString c)) cs)
     \<and> set (map endpoint_of tr) \<subseteq> {ChannelSearch, ChannelVideoList}"
proof (induction cs arbitrary: s)
  case Nil
  show ?case by (rule exI [of _ "[]"]) (simp add: calls_to_def)
next
  case (Cons c cs)
  let ?cs = "channel_search k (toString c)"
  obtain vs s1 where g: "getChannelVideos w c k 3 s = (vs, s1)" by (cases "getChannelVideos w c k 3 s")
  obtain tr1 where t1: "s1 = s\<lparr>calls := calls s @ ?cs @ tr1\<rparr>"
    and e1: "set (map endpoint_of tr1) \<subseteq> {ChannelVideoList}"
    using getChannelVideos_state [of w c k 3 s] g by auto
  obtain rest s2 where r: "allChannelVideos w k cs s1 = (rest, s2)" by (cases "allChannelVideos w k cs s1")
  obtain tr2 where t2: "s2 = s1\<lparr>calls := calls s1 @ tr2\<rparr>"
    and c2: "calls_to ChannelSearch tr2 = concat (map (\<lambda>c. channel_search k (toString c)) cs)"
    and e2: "set (map endpoint_of tr2) \<subseteq> {ChannelSearch, ChannelVideoList}"
    using Cons.IH [of s1] r by auto
  have n1: "calls_to ChannelSearch tr1 = []"
    using e1 by (intro calls_to_none) auto
  let ?tr = "?cs @ tr1 @ tr2"
  have "snd (allChannelVideos w k (c # cs) s) = s\<lparr>calls := calls s @ ?tr\<rparr>"
    using g r t1 t2 by simp
  moreover have "calls_to ChannelSearch ?tr
      = concat (map (\<lambda>c. channel_search k (toString c)) (c # cs))"
    using n1 c2 channel_search_endpoints(1) [of k "toString c"]
    by (simp add: calls_to_append)
  moreover have "set (map endpoint_of ?tr) \<subseteq> {ChannelSearch, ChannelVideoList}"
    using e1 e2 channel_search_endpoints(2) [of k "toString c"] by auto
  ultimately show ?case by blast
qed

lemma allChannelVideos_channels: "map channel (fst (allChannelVideos w k cs s)) = cs"
proof (induction cs arbitrary: s)
  case Nil
  show ?case by simp
next
  case (Cons c cs)
  obtain vs s1 where g: "getChannelVideos w c k 3 s = (vs, s1)" by (cases "getChannelVideos w c k 3 s")
  obtain rest s2 where r: "allChannelVideos w k cs s1 = (rest, s2)" by (cases "allChannelVideos w k cs s1")
  have "map channel rest = cs" using Cons.IH [of s1] r by simp
  then show ?case using g r by simp
qed

lemma getRedditAccessToken_cached:
  "cache_valid now s \<Longrightarrow> getRedditAccessToken v w now now' i x s = (token_value (redditToken s), s)"
  by (simp add: getRedditAccessToken_def cache_valid_def)

lemma getRedditAccessToken_failed:
  "\<not> cache_valid now s \<Longrightarrow>
   granted_token (fetch w (length (calls s)) (RedditAccessToken i x (userAgent v))) = None \<Longrightarrow>
   getRedditAccessToken v w now now' i x s = (JNull, s\<lparr>calls := calls s @ [RedditAccessToken i x (userAgent v)]\<rparr>)"
  by (auto simp add: getRedditAccessToken_def cache_valid_def granted_token_def do_fetch_def
      split: option.splits sum.splits if_splits)

lemma getRedditAccessToken_granted:
  "\<not> cache_valid now s \<Longrightarrow>
   granted_token (fetch w (length (calls s)) (RedditAccessToken i x (userAgent v))) = Some tok \<Longrightarrow>
   getRedditAccessToken v w now now' i x s =
     (tok, s\<lparr>calls := calls s @ [RedditAccessToken i x (userAgent v)],
             redditToken := \<lparr>token_value = tok, expires = now' + 3000000\<rparr>\<rparr>)"
  by (auto simp add: getRedditAccessToken_def cache_valid_def granted_token_def do_fetch_def
      split: option.splits sum.splits if_splits)

lemma granted_token_truthy: "granted_token r = Some tok \<Longrightarrow> truthy tok"
  by (auto simp: granted_token_def split: option.splits sum.splits if_splits)

lemma getSubredditPosts_state:
  "snd (getSubredditPosts v w sub tok n s) = s\<lparr>calls := calls s @ [RedditHot sub (toString tok) n (userAgent v)]\<rparr>"
  by (simp add: getSubredditPosts_def do_fetch_def split: option.split)

lemma allSubredditPosts_strings:
  "\<exists>ps. allSubredditPosts v w tok (map JStr ss) s =
      (Inr ps, s\<lparr>calls := calls s @ map (\<lambda>sub. RedditHot (replace sub ''r/'' []) (toString tok) 3 (userAgent v)) ss\<rparr>)
    \<and> map subreddit ps = map JStr ss"
proof (induction ss arbitrary: s)
  case Nil
  show ?case by simp
next
  case (Cons x ss)
  obtain ps s1 where g: "getSubredditPosts v w (replace x ''r/'' []) tok 3 s = (ps, s1)"
    by (cases "getSubredditPosts v w (replace x ''r/'' []) tok 3 s")
  have s1: "s1 = s\<lparr>calls := calls s @ [RedditHot (replace x ''r/'' []) (toString tok) 3 (userAgent v)]\<rparr>"
    using getSubredditPosts_state [of v w "replace x ''r/'' []" tok 3 s] g by simp
  from Cons.IH [of s1] obtain rest where
    r: "allSubredditPosts v w tok (map JStr ss) s1 =
      (Inr rest, s1\<lparr>calls := calls s1 @ map (\<lambda>sub. RedditHot (replace sub ''r/'' []) (toString tok) 3 (userAgent v)) ss\<rparr>)"
    and m: "map subreddit rest = map JStr ss" by blast
  show ?case using g r m s1 by simp
qed

lemma callLLM_state:
  "snd (callLLM v w p k s) = s\<lparr>calls := calls s @ [llm_request v p k]\<rparr>"
  by (cases v) (simp_all add: callOpenAI_API_def callGeminiAPI_def do_fetch_def
      split: fetch_result.split option.split sum.split)

lemma callLLM_ok:
  "fetch w (length (calls s)) (llm_request v p k) = Response True st (Some data) \<Longrightarrow>
   llm_content v data = Inr c \<Longrightarrow> JSON_parse w (toString c) = Some result \<Longrightarrow>
   fst (callLLM v w p k s) = Inr result"
  by (cases v) (simp_all add: callOpenAI_API_def callGeminiAPI_def do_fetch_def JSON_parse_value_def)

lemma get_string_truthy: "get b k = Inr (JStr a) \<Longrightarrow> truthy b"
  by (cases b) simp_all

lemma handler_try_valid:
  assumes "valid_request (req_body req) a g cs ss" and "config_present v env"
  shows "handler_try v w env now now' req s =
           process v w env now now' (JStr a) (JStr g) (map JStr cs) (map JStr ss) s"
proof -
  have t: "truthy (req_body req)"
    using assms(1) get_string_truthy unfolding valid_request_def by blast
  show ?thesis
    using assms t by (simp add: handler_try_def valid_request_def config_present_def)
qed

lemma collectData_valid:
  assumes enc: "encodeURIComponent (a @ '' '' @ g) = Inr q"
  shows "\<exists>tv cv tr s2 tok s2' rp s3.
     s2 = s\<lparr>calls := calls s @ YouTubeVideoSearch q 3 (secret (YOUTUBE_API_KEY env)) # tr\<rparr>
   \<and> calls_to ChannelSearch tr = channel_searches (secret (YOUTUBE_API_KEY env)) cs
   \<and> set (map endpoint_of tr) \<subseteq> {ChannelSearch, ChannelVideoList}
   \<and> map channel cv = map JStr cs
   \<and> getRedditAccessToken v w now now' (secret (REDDIT_CLIENT_ID env)) (secret (REDDIT_CLIENT_SECRET env)) s2
        = (tok, s2')
   \<and> s3 = (if truthy tok
           then s2'\<lparr>calls := calls s2' @
                  map (\<lambda>sub. RedditHot (replace sub ''r/'' []) (toString tok) 3 (userAgent v)) ss\<rparr>
           else s2')
   \<and> (if truthy tok then map subreddit rp = map JStr ss else rp = [])
   \<and> fst (searchYouTubeVideos w (a @ '' '' @ g) (secret (YOUTUBE_API_KEY env)) 3 s) = Inr tv
   \<and> cv = fst (allChannelVideos w (secret (YOUTUBE_API_KEY env)) (map JStr cs)
                 (s\<lparr>calls := calls s @ [YouTubeVideoSearch q 3 (secret (YOUTUBE_API_KEY env))]\<rparr>))
   \<and> collectData v w env now now' (JStr a) (JStr g) (map JStr cs) (map JStr ss) s
        = (Inr (tv, cv, rp), s3)"
proof -
  let ?yk = "secret (YOUTUBE_API_KEY env)"
  let ?q = "a @ '' '' @ g"
  let ?s1 = "s\<lparr>calls := calls s @ [YouTubeVideoSearch q 3 ?yk]\<rparr>"
  obtain tv where a1: "searchYouTubeVideos w ?q ?yk 3 s = (Inr tv, ?s1)"
    using searchYouTubeVideos_state [OF enc, of w ?yk 3 s] by blast
  obtain cv s2 where a2: "allChannelVideos w ?yk (map JStr cs) ?s1 = (cv, s2)"
    by (cases "allChannelVideos w ?yk (map JStr cs) ?s1")
  obtain tr where s2: "s2 = ?s1\<lparr>calls := calls ?s1 @ tr\<rparr>"
    and c2: "calls_to ChannelSearch tr
        = concat (map (\<lambda>c. channel_search ?yk (toString c)) (map JStr cs))"
    and e2: "set (map endpoint_of tr) \<subseteq> {ChannelSearch, ChannelVideoList}"
    using allChannelVideos_state [of w ?yk "map JStr cs" ?s1] a2 by auto
  have m2: "map channel cv = map JStr cs"
    using allChannelVideos_channels [of w ?yk "map JStr cs" ?s1] a2 by simp
  obtain tok s2' where a3:
    "getRedditAccessToken v w now now' (secret (REDDIT_CLIENT_ID env)) (secret (REDDIT_CLIENT_SECRET env)) s2
       = (tok, s2')"
    by (cases "getRedditAccessToken v w now now' (secret (REDDIT_CLIENT_ID env)) (secret (REDDIT_CLIENT_SECRET env)) s2")
  let ?s3 = "if truthy tok
           then s2'\<lparr>calls := calls s2' @
                  map (\<lambda>sub. RedditHot (replace sub ''r/'' []) (toString tok) 3 (userAgent v)) ss\<rparr>
           else s2'"
  obtain rp where a4: "redditPosts v w now now' (secret (REDDIT_CLIENT_ID env)) (secret (REDDIT_CLIENT_SECRET env))
       (map JStr ss) s2 = (Inr rp, ?s3)"
    and m4: "if truthy tok then map subreddit rp = map JStr ss else rp = []"
  proof (cases "truthy tok")
    case True
    obtain ps where "allSubredditPosts v w tok (map JStr ss) s2' =
      (Inr ps, s2'\<lparr>calls := calls s2' @ map (\<lambda>sub. RedditHot (replace sub ''r/'' []) (toString tok) 3 (userAgent v)) ss\<rparr>)"
      and "map subreddit ps = map JStr ss"
      using allSubredditPosts_strings [of v w tok ss s2'] by blast
    then show ?thesis using that [of ps] a3 True by (simp add: redditPosts_def)
  next
    case False
    then show ?thesis using that [of "[]"] a3 by (simp add: redditPosts_def)
  qed
  have "collectData v w env now now' (JStr a) (JStr g) (map JStr cs) (map JStr ss) s
        = (Inr (tv, cv, rp), ?s3)"
    using a1 a2 a4 by (simp add: collectData_def)
  moreover have "s2 = s\<lparr>calls := calls s @ YouTubeVideoSearch q 3 ?yk # tr\<rparr>"
    using s2 by simp
  moreover have "calls_to ChannelSearch tr = channel_searches ?yk cs"
    using c2 by (simp add: channel_searches_def comp_def)
  moreover have "fst (searchYouTubeVideos w ?q ?yk 3 s) = Inr tv"
    using a1 by simp
  moreover have "cv = fst (allChannelVideos w ?yk (map JStr cs) ?s1)"
    using a2 by simp
  ultimately show ?thesis using e2 m2 a3 m4 by blast
qed

lemma handler_valid:
  assumes "valid_request (req_body req) a g cs ss" and "config_present v env"
    and "req_method req = ''POST''"
    and "collectData v w env now now' (JStr a) (JStr g) (map JStr cs) (map JStr ss) s
            = (Inr (tv, cv, rp), s3)"
  shows "handler v w env now now' req s =
     (case callLLM v w (masterPrompt v (JStr a) (JStr g) tv cv rp) (secret (llm_key v env)) s3 of
        (Inl e, s4) \<Rightarrow> (internal_error e, s4)
      | (Inr r, s4) \<Rightarrow> (success r, s4))"
  using assms(3,4) handler_try_valid [OF assms(1,2)]
  by (simp add: handler_def process_def split: prod.split sum.split)

lemma get_body: "get (if truthy b then b else JObj []) k = Inr (field b k)"
  by (cases b) (simp_all add: field_def split: option.split)

lemma handler_try_fields:
  "handler_try v w env now now' req s =
     (if \<not> truthy (field (req_body req) ''audience'') \<or> \<not> truthy (field (req_body req) ''goal'')
         \<or> \<not> isArray (field (req_body req) ''competitorYouTubeChannels'')
         \<or> \<not> isArray (field (req_body req) ''relevantSubreddits'')
      then (Inr bad_request, s)
      else if \<not> config_present v env then (Inr configuration_error, s)
      else process v w env now now' (field (req_body req) ''audience'') (field (req_body req) ''goal'')
             (elements (field (req_body req) ''competitorYouTubeChannels''))
             (elements (field (req_body req) ''relevantSubreddits'')) s)"
  unfolding handler_try_def Let_def get_body by (simp add: config_present_def)

lemma getRedditAccessToken_shape:
  "\<exists>tok tk. getRedditAccessToken v w now now' i x s
       = (tok, s\<lparr> calls := calls s @ (if cache_valid now s then [] else [RedditAccessToken i x (userAgent v)]),
                  redditToken := tk \<rparr>)
     \<and> (cache_valid now s \<longrightarrow> tok = token_value (redditToken s) \<and> truthy tok \<and> tk = redditToken s)
     \<and> (\<not> cache_valid now s \<longrightarrow>
          (case granted_token (fetch w (length (calls s)) (RedditAccessToken i x (userAgent v))) of
             None \<Rightarrow> tok = JNull \<and> tk = redditToken s
           | Some t \<Rightarrow> tok = t \<and> truthy t \<and> tk = \<lparr> token_value = t, expires = now' + 3000000 \<rparr>))"
proof (cases "cache_valid now s")
  case True
  then show ?thesis
    using getRedditAccessToken_cached [OF True, of v w now' i x]
    by (simp add: cache_valid_def)
next
  case False
  show ?thesis
  proof (cases "granted_token (fetch w (length (calls s)) (RedditAccessToken i x (userAgent v)))")
    case None
    then show ?thesis using getRedditAccessToken_failed [OF False None, of now'] False by simp
  next
    case (Some t)
    then show ?thesis
      using getRedditAccessToken_granted [OF False Some, of now'] granted_token_truthy [OF Some] False
      by simp
  qed
qed

lemma calls_to_Cons:
  "calls_to e (r # tr) = (if endpoint_of r = e then r # calls_to e tr else calls_to e tr)"
  by (simp add: calls_to_def)

lemma calls_to_Nil: "calls_to e [] = []"
  by (simp add: calls_to_def)

lemma calls_to_subreddits:
  "calls_to e (map (\<lambda>sub. RedditHot (f sub) t n u) ss)
     = (if e = SubredditHot then map (\<lambda>sub. RedditHot (f sub) t n u) ss else [])"
  by (induction ss) (simp_all add: calls_to_def)

lemma endpoint_llm_request: "endpoint_of (llm_request v p k) = Completion"
  by (cases v) simp_all

lemma exchange_index_append:
  assumes "TokenExchange \<notin> set (map endpoint_of pre)" and "endpoint_of r = TokenExchange"
  shows "exchange_index (pre @ r # post) = length pre"
proof -
  have "takeWhile (\<lambda>r. endpoint_of r \<noteq> TokenExchange) (pre @ r # post) = pre"
    using assms by (induction pre) auto
  then show ?thesis by (simp add: exchange_index_def)
qed

lemma replies_nth:
  "i < length tr \<Longrightarrow> replies w s tr ! i = fetch w (length (calls s) + i) (tr ! i)"
  by (simp add: replies_def)

lemma exchange_index_nth:
  assumes "calls_to TokenExchange tr = [x]"
  shows "exchange_index tr < length tr" and "tr ! exchange_index tr = x"
proof -
  let ?P = "\<lambda>r. endpoint_of r \<noteq> TokenExchange"
  have "x \<in> set (calls_to TokenExchange tr)" using assms by simp
  then have "\<exists>r\<in>set tr. \<not> ?P r" by (auto simp add: calls_to_def)
  then have "takeWhile ?P tr \<noteq> tr" by (simp add: takeWhile_eq_all_conv)
  then have "length (takeWhile ?P tr) \<noteq> length tr"
    by (metis takeWhile_eq_take take_all_iff le_refl)
  then show lt: "exchange_index tr < length tr"
    using length_takeWhile_le [of ?P tr] by (simp add: exchange_index_def)
  then have "\<not> ?P (tr ! exchange_index tr)"
    unfolding exchange_index_def by (rule nth_length_takeWhile)
  then have "tr ! exchange_index tr \<in> set (calls_to TokenExchange tr)"
    using lt by (simp add: calls_to_def)
  then show "tr ! exchange_index tr = x" using assms by simp
qed

text \<open>
  The run of the handler on a valid request whose query can be encoded, phase by phase.
\<close>

lemma handler_valid_run:
  assumes "valid_request (req_body req) a g cs ss" and "config_present v env"
    and "req_method req = ''POST''"
    and enc: "encodeURIComponent (a @ '' '' @ g) = Inr q"
  shows "\<exists>tv cv tr tok tk rp.
     calls_to ChannelSearch tr = channel_searches (secret (YOUTUBE_API_KEY env)) cs
   \<and> set (map endpoint_of tr) \<subseteq> {ChannelSearch, ChannelVideoList}
   \<and> map channel cv = map JStr cs
   \<and> fst (searchYouTubeVideos w (a @ '' '' @ g) (secret (YOUTUBE_API_KEY env)) 3 s) = Inr tv
   \<and> cv = fst (allChannelVideos w (secret (YOUTUBE_API_KEY env)) (map JStr cs)
                 (s\<lparr>calls := calls s @ [YouTubeVideoSearch q 3 (secret (YOUTUBE_API_KEY env))]\<rparr>))
   \<and> (cache_valid now s \<longrightarrow> tok = token_value (redditToken s) \<and> truthy tok \<and> tk = redditToken s)
   \<and> (\<not> cache_valid now s \<longrightarrow>
          (case granted_token (fetch w (length (calls s) + Suc (length tr))
                   (RedditAccessToken (secret (REDDIT_CLIENT_ID env))
                   (secret (REDDIT_CLIENT_SECRET env)) (userAgent v))) of
             None \<Rightarrow> tok = JNull \<and> tk = redditToken s
           | Some t \<Rightarrow> tok = t \<and> truthy t \<and> tk = \<lparr> token_value = t, expires = now' + 3000000 \<rparr>))
   \<and> (if truthy tok then map subreddit rp = map JStr ss else rp = [])
   \<and> handler_calls v w env now now' req s
        = YouTubeVideoSearch q 3 (secret (YOUTUBE_API_KEY env)) # tr
          @ (if cache_valid now s then []
             else [RedditAccessToken (secret (REDDIT_CLIENT_ID env)) (secret (REDDIT_CLIENT_SECRET env))
                     (userAgent v)])
          @ (if truthy tok
             then map (\<lambda>sub. RedditHot (replace sub ''r/'' []) (toString tok) 3 (userAgent v)) ss
             else [])
          @ [llm_request v (masterPrompt v (JStr a) (JStr g) tv cv rp) (secret (llm_key v env))]
   \<and> redditToken (snd (handler v w env now now' req s)) = tk
   \<and> fst (handler v w env now now' req s)
        = (case fst (callLLM v w (masterPrompt v (JStr a) (JStr g) tv cv rp) (secret (llm_key v env))
                      (s\<lparr> calls := calls s @ butlast (handler_calls v w env now now' req s),
                          redditToken := tk \<rparr>)) of
             Inl e \<Rightarrow> internal_error e
           | Inr r \<Rightarrow> success r)"
proof -
  let ?yk = "secret (YOUTUBE_API_KEY env)"
  let ?id = "secret (REDDIT_CLIENT_ID env)"
  let ?sec = "secret (REDDIT_CLIENT_SECRET env)"
  let ?key = "secret (llm_key v env)"
  let ?subs = "\<lambda>tok. map (\<lambda>sub. RedditHot (replace sub ''r/'' []) (toString tok) 3 (userAgent v)) ss"
  obtain tv cv tr s2 tok s2' rp s3 where
      s2: "s2 = s\<lparr>calls := calls s @ YouTubeVideoSearch q 3 ?yk # tr\<rparr>"
    and c2: "calls_to ChannelSearch tr = channel_searches ?yk cs"
    and e2: "set (map endpoint_of tr) \<subseteq> {ChannelSearch, ChannelVideoList}"
    and m2: "map channel cv = map JStr cs"
    and g: "getRedditAccessToken v w now now' ?id ?sec s2 = (tok, s2')"
    and s3: "s3 = (if truthy tok then s2'\<lparr>calls := calls s2' @ ?subs tok\<rparr> else s2')"
    and rp: "if truthy tok then map subreddit rp = map JStr ss else rp = []"
    and tvd: "fst (searchYouTubeVideos w (a @ '' '' @ g) ?yk 3 s) = Inr tv"
    and cvd: "cv = fst (allChannelVideos w ?yk (map JStr cs)
                 (s\<lparr>calls := calls s @ [YouTubeVideoSearch q 3 ?yk]\<rparr>))"
    and cd: "collectData v w env now now' (JStr a) (JStr g) (map JStr cs) (map JStr ss) s
        = (Inr (tv, cv, rp), s3)"
    using collectData_valid [OF enc, where s = s and env = env and cs = cs
        and ss = ss and v = v and w = w and now = now and now' = now'] by blast
  have cv2: "cache_valid now s2 = cache_valid now s"
    using s2 by (simp add: cache_valid_def)
  have len2: "length (calls s2) = length (calls s) + Suc (length tr)"
    using s2 by simp
  let ?tp = "if cache_valid now s then [] else [RedditAccessToken ?id ?sec (userAgent v)]"
  obtain tok' tk where
      g': "getRedditAccessToken v w now now' ?id ?sec s2 = (tok', s2\<lparr> calls := calls s2 @ ?tp, redditToken := tk \<rparr>)"
    and v1: "cache_valid now s2 \<longrightarrow> tok' = token_value (redditToken s2) \<and> truthy tok' \<and> tk = redditToken s2"
    and v2: "\<not> cache_valid now s2 \<longrightarrow>
          (case granted_token (fetch w (length (calls s2)) (RedditAccessToken ?id ?sec (userAgent v))) of
             None \<Rightarrow> tok' = JNull \<and> tk = redditToken s2
           | Some t \<Rightarrow> tok' = t \<and> truthy t \<and> tk = \<lparr> token_value = t, expires = now' + 3000000 \<rparr>)"
    using getRedditAccessToken_shape [of v w now now' ?id ?sec s2] cv2 by auto
  have tt: "tok' = tok" and s2': "s2' = s2\<lparr> calls := calls s2 @ ?tp, redditToken := tk \<rparr>"
    using g g' by simp_all
  let ?p = "masterPrompt v (JStr a) (JStr g) tv cv rp"
  let ?pre = "YouTubeVideoSearch q 3 ?yk # tr @ ?tp @ (if truthy tok then ?subs tok else [])"
  have s3': "s3 = s\<lparr> calls := calls s @ ?pre, redditToken := tk \<rparr>"
    using s3 s2' s2 by simp
  have h: "handler v w env now now' req s =
     (case callLLM v w ?p ?key s3 of
        (Inl e, s4) \<Rightarrow> (internal_error e, s4)
      | (Inr r, s4) \<Rightarrow> (success r, s4))"
    using handler_valid [OF assms(1-3) cd] .
  obtain r s4 where cl: "callLLM v w ?p ?key s3 = (r, s4)"
    by (cases "callLLM v w ?p ?key s3")
  have s4: "s4 = s3\<lparr>calls := calls s3 @ [llm_request v ?p ?key]\<rparr>"
    using callLLM_state [of v w ?p ?key s3] cl by simp
  have sn: "snd (handler v w env now now' req s) = s3\<lparr>calls := calls s3 @ [llm_request v ?p ?key]\<rparr>"
    unfolding h cl s4 [symmetric] by (cases r) simp_all
  have hc: "handler_calls v w env now now' req s = ?pre @ [llm_request v ?p ?key]"
    unfolding handler_calls_def new_calls_def sn s3' by simp
  have bl: "s\<lparr> calls := calls s @ butlast (handler_calls v w env now now' req s), redditToken := tk \<rparr> = s3"
    unfolding hc s3' by (simp add: butlast_append)
  have f: "fst (handler v w env now now' req s)
        = (case fst (callLLM v w ?p ?key s3) of Inl e \<Rightarrow> internal_error e | Inr r \<Rightarrow> success r)"
    unfolding h cl by (cases r) simp_all
  have rt: "redditToken (snd (handler v w env now now' req s)) = tk"
    unfolding sn s3' by simp
  have rs: "redditToken s2 = redditToken s" using s2 by simp
  have w1: "cache_valid now s \<longrightarrow> tok = token_value (redditToken s) \<and> truthy tok \<and> tk = redditToken s"
    using v1 unfolding cv2 tt rs by blast
  have w2: "\<not> cache_valid now s \<longrightarrow>
          (case granted_token (fetch w (length (calls s) + Suc (length tr))
                 (RedditAccessToken ?id ?sec (userAgent v))) of
             None \<Rightarrow> tok = JNull \<and> tk = redditToken s
           | Some t \<Rightarrow> tok = t \<and> truthy t \<and> tk = \<lparr> token_value = t, expires = now' + 3000000 \<rparr>)"
    using v2 unfolding cv2 tt rs len2 by blast
  have hc': "handler_calls v w env now now' req s
        = YouTubeVideoSearch q 3 ?yk # tr @ ?tp @ (if truthy tok then ?subs tok else [])
          @ [llm_request v ?p ?key]"
    using hc by simp
  show ?thesis
    using c2 e2 m2 tvd cvd w1 w2 rp hc' rt f [folded bl] by blast
qed

lemma callLLM_failure:
  assumes "bad_completion v w (fetch w (length (calls s)) (llm_request v p k))"
  shows "callLLM v w p k s = (Inl (Error (llm_failure v)), s\<lparr>calls := calls s @ [llm_request v p k]\<rparr>)"
proof (cases v)
  case OpenAI
  then show ?thesis
    using assms
    by (cases "fetch w (length (calls s)) (OpenAIChatCompletion p k)")
       (auto simp add: callOpenAI_API_def do_fetch_def JSON_parse_value_def
             split: option.splits sum.splits)
next
  case Gemini
  then show ?thesis
    using assms
    by (cases "fetch w (length (calls s)) (GeminiGenerateContent p k)")
       (auto simp add: callGeminiAPI_def do_fetch_def JSON_parse_value_def
             split: option.splits sum.splits)
qed

lemma calls_to_channel_phase:
  assumes "set (map endpoint_of tr) \<subseteq> {ChannelSearch, ChannelVideoList}"
  shows "calls_to KeywordSearch tr = []" "calls_to TokenExchange tr = []"
    "calls_to SubredditHot tr = []" "calls_to Completion tr = []"
proof -
  have "calls_to e tr = []" if "e \<notin> {ChannelSearch, ChannelVideoList}" for e
    using assms that by (intro calls_to_none) blast
  then show "calls_to KeywordSearch tr = []" "calls_to TokenExchange tr = []"
    "calls_to SubredditHot tr = []" "calls_to Completion tr = []"
    by simp_all
qed

lemma handler_calls_by_endpoint:
  assumes "valid_request (req_body req) a g cs ss" and "config_present v env"
    and "req_method req = ''POST''"
    and enc: "encodeURIComponent (a @ '' '' @ g) = Inr q"
  shows "\<exists>tv cv tok tk rp.
     map channel cv = map JStr cs
   \<and> fst (searchYouTubeVideos w (a @ '' '' @ g) (secret (YOUTUBE_API_KEY env)) 3 s) = Inr tv
   \<and> cv = fst (allChannelVideos w (secret (YOUTUBE_API_KEY env)) (map JStr cs)
                 (s\<lparr>calls := calls s @ [YouTubeVideoSearch q 3 (secret (YOUTUBE_API_KEY env))]\<rparr>))
   \<and> (cache_valid now s \<longrightarrow> tok = token_value (redditToken s) \<and> truthy tok \<and> tk = redditToken s)
   \<and> (\<not> cache_valid now s \<longrightarrow>
          (case granted_token (fetch w (length (calls s)
                     + exchange_index (handler_calls v w env now now' req s))
                   (RedditAccessToken (secret (REDDIT_CLIENT_ID env))
                   (secret (REDDIT_CLIENT_SECRET env)) (userAgent v))) of
             None \<Rightarrow> tok = JNull \<and> tk = redditToken s
           | Some t \<Rightarrow> tok = t \<and> truthy t \<and> tk = \<lparr> token_value = t, expires = now' + 3000000 \<rparr>))
   \<and> (if truthy tok then map subreddit rp = map JStr ss else rp = [])
   \<and> calls_to KeywordSearch (handler_calls v w env now now' req s)
        = [YouTubeVideoSearch q 3 (secret (YOUTUBE_API_KEY env))]
   \<and> calls_to ChannelSearch (handler_calls v w env now now' req s)
        = channel_searches (secret (YOUTUBE_API_KEY env)) cs
   \<and> calls_to TokenExchange (handler_calls v w env now now' req s)
        = (if cache_valid now s then []
           else [RedditAccessToken (secret (REDDIT_CLIENT_ID env)) (secret (REDDIT_CLIENT_SECRET env))
                   (userAgent v)])
   \<and> calls_to SubredditHot (handler_calls v w env now now' req s)
        = (if truthy tok
           then map (\<lambda>sub. RedditHot (replace sub ''r/'' []) (toString tok) 3 (userAgent v)) ss
           else [])
   \<and> calls_to Completion (handler_calls v w env now now' req s)
        = [llm_request v (masterPrompt v (JStr a) (JStr g) tv cv rp) (secret (llm_key v env))]
   \<and> handler_calls v w env now now' req s \<noteq> []
   \<and> last (handler_calls v w env now now' req s)
        = llm_request v (masterPrompt v (JStr a) (JStr g) tv cv rp) (secret (llm_key v env))
   \<and> redditToken (snd (handler v w env now now' req s)) = tk
   \<and> fst (handler v w env now now' req s)
        = (case fst (callLLM v w (masterPrompt v (JStr a) (JStr g) tv cv rp) (secret (llm_key v env))
                      (s\<lparr> calls := calls s @ butlast (handler_calls v w env now now' req s),
                          redditToken := tk \<rparr>)) of
             Inl e \<Rightarrow> internal_error e
           | Inr r \<Rightarrow> success r)"
proof -
  let ?yk = "secret (YOUTUBE_API_KEY env)"
  let ?id = "secret (REDDIT_CLIENT_ID env)"
  let ?sec = "secret (REDDIT_CLIENT_SECRET env)"
  let ?key = "secret (llm_key v env)"
  let ?tp = "if cache_valid now s then [] else [RedditAccessToken ?id ?sec (userAgent v)]"
  let ?subs = "\<lambda>tok. if truthy tok
      then map (\<lambda>sub. RedditHot (replace sub ''r/'' []) (toString tok) 3 (userAgent v)) ss else []"
  let ?hc = "handler_calls v w env now now' req s"
  obtain tv cv tr tok tk rp where
      c2: "calls_to ChannelSearch tr = channel_searches ?yk cs"
    and e2: "set (map endpoint_of tr) \<subseteq> {ChannelSearch, ChannelVideoList}"
    and m2: "map channel cv = map JStr cs"
    and tvd: "fst (searchYouTubeVideos w (a @ '' '' @ g) ?yk 3 s) = Inr tv"
    and cvd: "cv = fst (allChannelVideos w ?yk (map JStr cs)
                 (s\<lparr>calls := calls s @ [YouTubeVideoSearch q 3 ?yk]\<rparr>))"
    and w1: "cache_valid now s \<longrightarrow> tok = token_value (redditToken s) \<and> truthy tok \<and> tk = redditToken s"
    and w2: "\<not> cache_valid now s \<longrightarrow>
          (case granted_token (fetch w (length (calls s) + Suc (length tr))
                 (RedditAccessToken ?id ?sec (userAgent v))) of
             None \<Rightarrow> tok = JNull \<and> tk = redditToken s
           | Some t \<Rightarrow> tok = t \<and> truthy t \<and> tk = \<lparr> token_value = t, expires = now' + 3000000 \<rparr>)"
    and rp: "if truthy tok then map subreddit rp = map JStr ss else rp = []"
    and hc: "?hc = YouTubeVideoSearch q 3 ?yk # tr @ ?tp @ ?subs tok
          @ [llm_request v (masterPrompt v (JStr a) (JStr g) tv cv rp) ?key]"
    and rt: "redditToken (snd (handler v w env now now' req s)) = tk"
    and f: "fst (handler v w env now now' req s)
        = (case fst (callLLM v w (masterPrompt v (JStr a) (JStr g) tv cv rp) ?key
                      (s\<lparr> calls := calls s @ butlast ?hc, redditToken := tk \<rparr>)) of
             Inl e \<Rightarrow> internal_error e
           | Inr r \<Rightarrow> success r)"
    using handler_valid_run [OF assms, where now = now and s = s and w = w and now' = now'] by blast
  note ch = calls_to_channel_phase [OF e2]
  let ?llm = "llm_request v (masterPrompt v (JStr a) (JStr g) tv cv rp) ?key"
  have k1: "calls_to KeywordSearch ?hc = [YouTubeVideoSearch q 3 ?yk]"
    unfolding hc
    by (simp add: calls_to_Cons calls_to_append calls_to_Nil calls_to_subreddits ch endpoint_llm_request)
  have k2: "calls_to ChannelSearch ?hc = channel_searches ?yk cs"
    unfolding hc
    by (simp add: calls_to_Cons calls_to_append calls_to_Nil calls_to_subreddits c2 endpoint_llm_request)
  have k3: "calls_to TokenExchange ?hc = ?tp"
    unfolding hc
    by (simp add: calls_to_Cons calls_to_append calls_to_Nil calls_to_subreddits ch endpoint_llm_request)
  have k4: "calls_to SubredditHot ?hc = ?subs tok"
    unfolding hc
    by (simp add: calls_to_Cons calls_to_append calls_to_Nil calls_to_subreddits ch endpoint_llm_request)
  have k5: "calls_to Completion ?hc = [?llm]"
    unfolding hc
    by (simp add: calls_to_Cons calls_to_append calls_to_Nil calls_to_subreddits ch endpoint_llm_request)
  have k6: "?hc \<noteq> []" "last ?hc = ?llm"
    unfolding hc by simp_all
  have ix: "exchange_index ?hc = Suc (length tr)" if "\<not> cache_valid now s"
  proof -
    have n: "TokenExchange \<notin> set (map endpoint_of (YouTubeVideoSearch q 3 ?yk # tr))"
      using e2 by auto
    have "?hc = (YouTubeVideoSearch q 3 ?yk # tr) @ RedditAccessToken ?id ?sec (userAgent v)
            # (?subs tok @ [?llm])"
      using hc that by simp
    then show ?thesis
      using exchange_index_append [OF n, of "RedditAccessToken ?id ?sec (userAgent v)" "?subs tok @ [?llm]"]
      by simp
  qed
  have w2': "\<not> cache_valid now s \<longrightarrow>
          (case granted_token (fetch w (length (calls s) + exchange_index ?hc)
                 (RedditAccessToken ?id ?sec (userAgent v))) of
             None \<Rightarrow> tok = JNull \<and> tk = redditToken s
           | Some t \<Rightarrow> tok = t \<and> truthy t \<and> tk = \<lparr> token_value = t, expires = now' + 3000000 \<rparr>)"
    using w2 ix by simp
  show ?thesis
    using m2 tvd cvd w1 w2' rp k1 k2 k3 k4 k5 k6 rt f by blast
qed

text \<open>
  The run of the handler on a valid request whose query cannot be encoded: the keyword
  search rejects before it sends anything, and the handler's \<^verbatim>\<open>catch\<close> answers.
\<close>

lemma handler_unencodable:
  assumes "valid_request (req_body req) a g cs ss" and "config_present v env"
    and "req_method req = ''POST''"
    and ls: "lone_surrogate (a @ '' '' @ g)"
  shows "fst (handler v w env now now' req s) = internal_error (URIError ''URI malformed'')"
    and "calls_to KeywordSearch (handler_calls v w env now now' req s) = []"
    and "calls_to Completion (handler_calls v w env now now' req s) = []"
proof -
  let ?yk = "secret (YOUTUBE_API_KEY env)"
  let ?id = "secret (REDDIT_CLIENT_ID env)"
  let ?sec = "secret (REDDIT_CLIENT_SECRET env)"
  let ?e = "URIError ''URI malformed''"
  let ?hc = "handler_calls v w env now now' req s"
  have a1: "searchYouTubeVideos w (a @ '' '' @ g) ?yk 3 s = (Inl ?e, s)"
    using searchYouTubeVideos_rejects [OF ls] .
  obtain cv s2 where a2: "allChannelVideos w ?yk (map JStr cs) s = (cv, s2)"
    by (cases "allChannelVideos w ?yk (map JStr cs) s")
  obtain tr where s2: "s2 = s\<lparr>calls := calls s @ tr\<rparr>"
    and e2: "set (map endpoint_of tr) \<subseteq> {ChannelSearch, ChannelVideoList}"
    using allChannelVideos_state [of w ?yk "map JStr cs" s] a2 by auto
  let ?tp = "if cache_valid now s2 then [] else [RedditAccessToken ?id ?sec (userAgent v)]"
  obtain tok tk where
    g: "getRedditAccessToken v w now now' ?id ?sec s2
          = (tok, s2\<lparr> calls := calls s2 @ ?tp, redditToken := tk \<rparr>)"
    using getRedditAccessToken_shape [of v w now now' ?id ?sec s2] by blast
  let ?s2' = "s2\<lparr> calls := calls s2 @ ?tp, redditToken := tk \<rparr>"
  let ?subs = "if truthy tok
      then map (\<lambda>sub. RedditHot (replace sub ''r/'' []) (toString tok) 3 (userAgent v)) ss else []"
  obtain rp where a4: "redditPosts v w now now' ?id ?sec (map JStr ss) s2
       = (Inr rp, ?s2'\<lparr>calls := calls ?s2' @ ?subs\<rparr>)"
  proof (cases "truthy tok")
    case True
    obtain ps where "allSubredditPosts v w tok (map JStr ss) ?s2' =
      (Inr ps, ?s2'\<lparr>calls := calls ?s2' @ map (\<lambda>sub. RedditHot (replace sub ''r/'' []) (toString tok) 3 (userAgent v)) ss\<rparr>)"
      using allSubredditPosts_strings [of v w tok ss ?s2'] by blast
    then show ?thesis using that [of ps] g True by (simp add: redditPosts_def)
  next
    case False
    then show ?thesis using that [of "[]"] g by (simp add: redditPosts_def)
  qed
  let ?s3 = "?s2'\<lparr>calls := calls ?s2' @ ?subs\<rparr>"
  have cd: "collectData v w env now now' (JStr a) (JStr g) (map JStr cs) (map JStr ss) s = (Inl ?e, ?s3)"
    using a1 a2 a4 by (simp add: collectData_def)
  have h: "handler v w env now now' req s = (internal_error ?e, ?s3)"
    using assms(3) cd handler_try_valid [OF assms(1,2), of w now now' s]
    by (simp add: handler_def process_def)
  show "fst (handler v w env now now' req s) = internal_error ?e"
    using h by simp
  have hc: "?hc = tr @ ?tp @ ?subs"
    unfolding handler_calls_def new_calls_def h using s2 by simp
  note ch = calls_to_channel_phase [OF e2]
  show "calls_to KeywordSearch ?hc = []"
    unfolding hc by (simp add: calls_to_Cons calls_to_append calls_to_Nil calls_to_subreddits ch)
  show "calls_to Completion ?hc = []"
    unfolding hc by (simp add: calls_to_Cons calls_to_append calls_to_Nil calls_to_subreddits ch)
qed

text \<open>
  The token guard. On a valid request whose query can be encoded, when no valid token is
  cached and the credential exchange grants none, \<^verbatim>\<open>getRedditAccessToken\<close> returns
  \<^verbatim>\<open>null\<close>, no subreddit is fetched, the Reddit contribution is the empty list, the cache
  is left as it was, and the last upstream request is the completion call, whose outcome
  decides the response.
\<close>

lemma token_guard:
  assumes "valid_request (req_body req) a g cs ss" and "config_present v env"
    and "req_method req = ''POST''"
    and "\<not> lone_surrogate (a @ '' '' @ g)"
    and "\<not> cache_valid now s"
    and "\<forall>n. granted_token (fetch w n (RedditAccessToken (secret (REDDIT_CLIENT_ID env))
                (secret (REDDIT_CLIENT_SECRET env)) (userAgent v))) = None"
  shows "\<exists>tv cv.
     fst (getRedditAccessToken v w now now' (secret (REDDIT_CLIENT_ID env))
            (secret (REDDIT_CLIENT_SECRET env)) s) = JNull
   \<and> calls_to TokenExchange (handler_calls v w env now now' req s)
        = [RedditAccessToken (secret (REDDIT_CLIENT_ID env)) (secret (REDDIT_CLIENT_SECRET env))
             (userAgent v)]
   \<and> calls_to SubredditHot (handler_calls v w env now now' req s) = []
   \<and> redditSection v [] = placeholder v
   \<and> calls_to Completion (handler_calls v w env now now' req s)
        = [llm_request v (masterPrompt v (JStr a) (JStr g) tv cv []) (secret (llm_key v env))]
   \<and> last (handler_calls v w env now now' req s)
        = llm_request v (masterPrompt v (JStr a) (JStr g) tv cv []) (secret (llm_key v env))
   \<and> redditToken (snd (handler v w env now now' req s)) = redditToken s
   \<and> fst (handler v w env now now' req s)
        = (case fst (callLLM v w (masterPrompt v (JStr a) (JStr g) tv cv []) (secret (llm_key v env))
                      (s\<lparr> calls := calls s @ butlast (handler_calls v w env now now' req s) \<rparr>)) of
             Inl e \<Rightarrow> internal_error e
           | Inr r \<Rightarrow> success r)"
proof -
  let ?id = "secret (REDDIT_CLIENT_ID env)"
  let ?sec = "secret (REDDIT_CLIENT_SECRET env)"
  let ?key = "secret (llm_key v env)"
  let ?hc = "handler_calls v w env now now' req s"
  obtain q where q: "encodeURIComponent (a @ '' '' @ g) = Inr q"
    using encodeURIComponent_total [OF assms(4)] by blast
  obtain tv cv tok tk rp where
      w2: "\<not> cache_valid now s \<longrightarrow>
          (case granted_token (fetch w (length (calls s) + exchange_index ?hc)
                  (RedditAccessToken ?id ?sec (userAgent v))) of
             None \<Rightarrow> tok = JNull \<and> tk = redditToken s
           | Some t \<Rightarrow> tok = t \<and> truthy t \<and> tk = \<lparr> token_value = t, expires = now' + 3000000 \<rparr>)"
    and rp: "if truthy tok then map subreddit rp = map JStr ss else rp = []"
    and k3: "calls_to TokenExchange ?hc
        = (if cache_valid now s then [] else [RedditAccessToken ?id ?sec (userAgent v)])"
    and k4: "calls_to SubredditHot ?hc
        = (if truthy tok
           then map (\<lambda>sub. RedditHot (replace sub ''r/'' []) (toString tok) 3 (userAgent v)) ss
           else [])"
    and k5: "calls_to Completion ?hc = [llm_request v (masterPrompt v (JStr a) (JStr g) tv cv rp) ?key]"
    and k6: "last ?hc = llm_request v (masterPrompt v (JStr a) (JStr g) tv cv rp) ?key"
    and rt: "redditToken (snd (handler v w env now now' req s)) = tk"
    and f: "fst (handler v w env now now' req s)
        = (case fst (callLLM v w (masterPrompt v (JStr a) (JStr g) tv cv rp) ?key
                      (s\<lparr> calls := calls s @ butlast ?hc, redditToken := tk \<rparr>)) of
             Inl e \<Rightarrow> internal_error e
           | Inr r \<Rightarrow> success r)"
    using handler_calls_by_endpoint [OF assms(1-3) q, where now = now and s = s and w = w
        and now' = now']
    by blast
  have gn: "granted_token (fetch w (length (calls s) + exchange_index ?hc)
              (RedditAccessToken ?id ?sec (userAgent v))) = None"
    using assms(6) by blast
  have tok: "tok = JNull" and tk: "tk = redditToken s"
    using w2 assms(5) gn by simp_all
  have rp': "rp = []" using rp tok by simp
  have g0: "granted_token (fetch w (length (calls s)) (RedditAccessToken ?id ?sec (userAgent v))) = None"
    using assms(6) by blast
  have a1: "fst (getRedditAccessToken v w now now' ?id ?sec s) = JNull"
    using getRedditAccessToken_failed [OF assms(5) g0, of now'] by simp
  have a2: "calls_to TokenExchange ?hc = [RedditAccessToken ?id ?sec (userAgent v)]"
    using k3 assms(5) by simp
  have a3: "calls_to SubredditHot ?hc = []"
    using k4 tok by simp
  have a4: "redditSection v [] = placeholder v"
    by (simp add: redditSection_def redditPostTitles_def or_default_def)
  have st: "s\<lparr> calls := calls s @ butlast ?hc, redditToken := tk \<rparr> = s\<lparr> calls := calls s @ butlast ?hc \<rparr>"
    unfolding tk by simp
  show ?thesis
    using a1 a2 a3 a4 k5 [unfolded rp'] k6 [unfolded rp'] rt [unfolded tk] f [unfolded rp' st]
    by blast
qed

lemma fitness_request_valid:
  "valid_request (req_body fitness_request) ''fitness beginners'' ''grow a YouTube channel''
     [''Athlean-X''] [''r/fitness'']"
  by (simp add: valid_request_def fitness_request_def)

lemma env0_present: "config_present v env0"
  by (cases v) (simp_all add: config_present_def env0_def)

lemma fitness_query:
  "encodeURIComponent (''fitness beginners'' @ '' '' @ ''grow a YouTube channel'')
     = Inr ''fitness%20beginners%20grow%20a%20YouTube%20channel''"
  by code_simp

lemma athlean_x: "encodeURIComponent ''Athlean-X'' = Inr ''Athlean-X''"
  by code_simp

lemma fitness_encodable:
  "\<not> lone_surrogate (''fitness beginners'' @ '' '' @ ''grow a YouTube channel'')"
  using fitness_query by (rule encodeURIComponent_Inr)

lemma surrogate_request_valid:
  "valid_request (req_body surrogate_request) [CHR 0xED, CHR 0xA0, CHR 0x80]
     ''grow a YouTube channel'' [''Athlean-X''] [''r/fitness'']"
  by (simp add: valid_request_def surrogate_request_def)

lemma surrogate_request_post: "req_method surrogate_request = ''POST''"
  by (simp add: surrogate_request_def)

lemma fitness_request_post: "req_method fitness_request = ''POST''"
  by (simp add: fitness_request_def)

lemma join_strings_nonempty: "xs \<noteq> [] \<Longrightarrow> hd xs \<noteq> [] \<Longrightarrow> join_strings sep xs \<noteq> []"
  by (induction sep xs rule: join_strings.induct) simp_all

lemma competitorVideoTitles_empty: "competitorVideoTitles cv = [] \<longleftrightarrow> cv = []"
proof (cases cv)
  case Nil
  then show ?thesis by (simp add: competitorVideoTitles_def)
next
  case (Cons c rest)
  then show ?thesis
    using join_strings_nonempty
      [of "map (\<lambda>c. toString (channel c) @ '': '' @ array_join '', '' (map title (videos c))) cv" "'' | ''"]
    by (simp add: competitorVideoTitles_def)
qed

lemma redditPostTitles_empty: "redditPostTitles rp = [] \<longleftrightarrow> rp = []"
proof (cases rp)
  case Nil
  then show ?thesis by (simp add: redditPostTitles_def)
next
  case (Cons c rest)
  then show ?thesis
    using join_strings_nonempty
      [of "map (\<lambda>s. toString (subreddit s) @ '': '' @ array_join '', '' (map title (posts s))) rp" "'' | ''"]
    by (simp add: redditPostTitles_def)
qed

lemma placeholder_nonempty: "placeholder v \<noteq> []"
  by (cases v) simp_all

lemma or_default_nonempty: "d \<noteq> [] \<Longrightarrow> or_default x d \<noteq> []"
  by (simp add: or_default_def)













section \<open>The properties\<close>

text \<open>
  C1, as the code has it. For every request with the audience \<^verbatim>\<open>fitness beginners\<close>, the
  goal \<^verbatim>\<open>grow a YouTube channel\<close>, the channel \<^verbatim>\<open>Athlean-X\<close> and the subreddit
  \<^verbatim>\<open>r/fitness\<close>, with the secrets present: when the completion call succeeds and its
  content parses to the JSON value \<open>result\<close>, the handler responds 200 with the header
  \<^verbatim>\<open>Content-Type: application/json\<close> and with \<open>result\<close> itself as the body. The handler
  does not look into it: the body has the four keys and the calendar of 30 entries exactly
  when the model's completion has them.
\<close>

theorem completion_passed_through:
  assumes "valid_request (req_body req) ''fitness beginners'' ''grow a YouTube channel''
             [''Athlean-X''] [''r/fitness'']"
    and "req_method req = ''POST''" and "config_present v env"
    and "\<forall>n p. fetch w n (llm_request v p (secret (llm_key v env)))
                 = Response True statusText (Some data)"
    and "llm_content v data = Inr content"
    and "JSON_parse w (toString content) = Some result"
  shows "status (fst (handler v w env now now' req s)) = 200
       \<and> headers (fst (handler v w env now now' req s))
           = cors_headers @ [(''Content-Type'', ''application/json'')]
       \<and> body (fst (handler v w env now now' req s)) = Some result
       \<and> ((case body (fst (handler v w env now now' req s)) of
              None \<Rightarrow> False
            | Some b \<Rightarrow> strategy_schema b) \<longleftrightarrow> strategy_schema result)"
proof -
  let ?key = "secret (llm_key v env)"
  let ?hc = "handler_calls v w env now now' req s"
  obtain tv cv tk rp where
    f: "fst (handler v w env now now' req s)
        = (case fst (callLLM v w (masterPrompt v (JStr ''fitness beginners'')
                        (JStr ''grow a YouTube channel'') tv cv rp) ?key
                      (s\<lparr> calls := calls s @ butlast ?hc, redditToken := tk \<rparr>)) of
             Inl e \<Rightarrow> internal_error e
           | Inr r \<Rightarrow> success r)"
    using handler_calls_by_endpoint [OF assms(1) assms(3) assms(2) fitness_query,
        where now = now and s = s and w = w and now' = now']
    by blast
  let ?s3 = "s\<lparr> calls := calls s @ butlast ?hc, redditToken := tk \<rparr>"
  let ?p = "masterPrompt v (JStr ''fitness beginners'') (JStr ''grow a YouTube channel'') tv cv rp"
  have "fetch w (length (calls ?s3)) (llm_request v ?p ?key) = Response True statusText (Some data)"
    using assms(4) by blast
  then have "fst (callLLM v w ?p ?key ?s3) = Inr result"
    using callLLM_ok [of w ?s3 v ?p ?key statusText data content result] assms(5,6) by simp
  then have "fst (handler v w env now now' req s) = success result"
    using f by simp
  then show ?thesis by (simp add: success_def)
qed

theorem completion_passed_through_witness:
  "status (fst (handler OpenAI upstream_conforming env0 0 0 fitness_request initial_state)) = 200
   \<and> body (fst (handler OpenAI upstream_conforming env0 0 0 fitness_request initial_state))
       = Some conforming_strategy
   \<and> strategy_schema conforming_strategy
   \<and> status (fst (handler OpenAI upstream_ok env0 0 0 fitness_request initial_state)) = 200
   \<and> body (fst (handler OpenAI upstream_ok env0 0 0 fitness_request initial_state)) = Some (JObj [])"
proof -
  have r1: "\<forall>n p. fetch upstream_conforming n (llm_request OpenAI p (secret (llm_key OpenAI env0)))
                 = Response True ''OK'' (Some (completion_reply OpenAI ''{}''))"
    by (simp add: upstream_conforming_def)
  have r2: "\<forall>n p. fetch upstream_ok n (llm_request OpenAI p (secret (llm_key OpenAI env0)))
                 = Response True ''OK'' (Some (completion_reply OpenAI ''{}''))"
    by (simp add: upstream_ok_def)
  have c: "llm_content OpenAI (completion_reply OpenAI ''{}'') = Inr (JStr ''{}'')"
    by (simp add: openai_content_def)
  have p1: "JSON_parse upstream_conforming (toString (JStr ''{}'')) = Some conforming_strategy"
    by (simp add: upstream_conforming_def)
  have p2: "JSON_parse upstream_ok (toString (JStr ''{}'')) = Some (JObj [])"
    by (simp add: upstream_ok_def parse_braces_def)
  have sc: "strategy_schema conforming_strategy"
    by code_simp
  from completion_passed_through [OF fitness_request_valid fitness_request_post env0_present r1 c p1,
      of 0 0 initial_state]
    completion_passed_through [OF fitness_request_valid fitness_request_post env0_present r2 c p2,
      of 0 0 initial_state]
    sc
  show ?thesis by blast
qed

text \<open>
  C1 as stated fails: with every upstream call succeeding, a model that completes with
  the text \<^verbatim>\<open>{}\<close> makes the handler respond 200 with the empty object, which has none of
  the four keys.
\<close>

theorem completion_passed_through_counterexample:
  "valid_request (req_body fitness_request) ''fitness beginners'' ''grow a YouTube channel''
     [''Athlean-X''] [''r/fitness'']
   \<and> list_all succeeded
       (replies upstream_ok initial_state
          (handler_calls OpenAI upstream_ok env0 0 0 fitness_request initial_state))
   \<and> status (fst (handler OpenAI upstream_ok env0 0 0 fitness_request initial_state)) = 200
   \<and> body (fst (handler OpenAI upstream_ok env0 0 0 fitness_request initial_state)) = Some (JObj [])
   \<and> \<not> strategy_schema (JObj [])"
proof -
  have a: "list_all succeeded
       (replies upstream_ok initial_state
          (handler_calls OpenAI upstream_ok env0 0 0 fitness_request initial_state))"
    by code_simp
  have b: "status (fst (handler OpenAI upstream_ok env0 0 0 fitness_request initial_state)) = 200"
    by code_simp
  have c: "body (fst (handler OpenAI upstream_ok env0 0 0 fitness_request initial_state)) = Some (JObj [])"
    by code_simp
  have d: "\<not> strategy_schema (JObj [])"
    by simp
  show ?thesis using fitness_request_valid a b c d by blast
qed

text \<open>
  C2. A POST request whose body lacks \<^verbatim>\<open>audience\<close> or \<^verbatim>\<open>goal\<close>, or whose
  \<^verbatim>\<open>competitorYouTubeChannels\<close> or \<^verbatim>\<open>relevantSubreddits\<close> is not an array, is answered
  with status 400, and the handler issues no upstream request at all: the state, and with
  it the log of upstream requests, is left as it was.
\<close>

theorem invalid_body_rejected:
  assumes "req_method req = ''POST''"
    and "field (req_body req) ''audience'' = JUndefined
       \<or> field (req_body req) ''goal'' = JUndefined
       \<or> \<not> isArray (field (req_body req) ''competitorYouTubeChannels'')
       \<or> \<not> isArray (field (req_body req) ''relevantSubreddits'')"
  shows "status (fst (handler v w env now now' req s)) = 400
       \<and> snd (handler v w env now now' req s) = s
       \<and> new_calls s (snd (handler v w env now now' req s)) = []"
proof -
  have "handler_try v w env now now' req s = (Inr bad_request, s)"
    using assms(2) by (auto simp add: handler_try_fields)
  then have "handler v w env now now' req s = (bad_request, s)"
    using assms(1) by (simp add: handler_def)
  then show ?thesis by (simp add: bad_request_def error_response_def new_calls_def)
qed

theorem invalid_body_rejected_witness:
  "req_method no_goal_request = ''POST''
   \<and> field (req_body no_goal_request) ''goal'' = JUndefined
   \<and> status (fst (handler OpenAI upstream_ok env0 0 0 no_goal_request initial_state)) = 400
   \<and> snd (handler OpenAI upstream_ok env0 0 0 no_goal_request initial_state) = initial_state
   \<and> new_calls initial_state (snd (handler OpenAI upstream_ok env0 0 0 no_goal_request initial_state)) = []"
proof -
  have m: "req_method no_goal_request = ''POST''" by (simp add: no_goal_request_def)
  have g: "field (req_body no_goal_request) ''goal'' = JUndefined"
    by (simp add: no_goal_request_def field_def)
  have d: "field (req_body no_goal_request) ''audience'' = JUndefined
       \<or> field (req_body no_goal_request) ''goal'' = JUndefined
       \<or> \<not> isArray (field (req_body no_goal_request) ''competitorYouTubeChannels'')
       \<or> \<not> isArray (field (req_body no_goal_request) ''relevantSubreddits'')"
    using g by simp
  from invalid_body_rejected [OF m d, of OpenAI upstream_ok env0 0 0 initial_state] m g
  show ?thesis by blast
qed

text \<open>
  C10. A POST request in which \<^verbatim>\<open>audience\<close> or \<^verbatim>\<open>goal\<close> is present but falsy (the empty
  string, for one), and a request with no body at all, is answered with status 400 and
  nothing is thrown: the \<^verbatim>\<open>try\<close> block itself returns the bad-request response. A
  missing body reads as the empty object.
\<close>

theorem falsy_fields_rejected:
  assumes "req_method req = ''POST''"
    and "\<not> truthy (req_body req) \<or> \<not> truthy (field (req_body req) ''audience'')
       \<or> \<not> truthy (field (req_body req) ''goal'')"
  shows "handler_try v w env now now' req s = (Inr bad_request, s)
       \<and> handler v w env now now' req s = (bad_request, s)
       \<and> status bad_request = 400
       \<and> (\<not> truthy (req_body req) \<longrightarrow> field (req_body req) k = field (JObj []) k)"
proof -
  have f: "\<not> truthy (req_body req) \<Longrightarrow> field (req_body req) k' = JUndefined" for k'
    by (simp add: field_def)
  have "\<not> truthy (field (req_body req) ''audience'') \<or> \<not> truthy (field (req_body req) ''goal'')"
    using assms(2) f [of "''audience''"] by auto
  then have t: "handler_try v w env now now' req s = (Inr bad_request, s)"
    by (auto simp add: handler_try_fields)
  then have "handler v w env now now' req s = (bad_request, s)"
    using assms(1) by (simp add: handler_def)
  with t show ?thesis by (simp add: bad_request_def error_response_def field_def)
qed

theorem falsy_fields_rejected_witness:
  "handler_try OpenAI upstream_ok env0 0 0 empty_audience_request initial_state
     = (Inr bad_request, initial_state)
   \<and> handler OpenAI upstream_ok env0 0 0 empty_audience_request initial_state
     = (bad_request, initial_state)
   \<and> handler_try OpenAI upstream_ok env0 0 0 no_body_request initial_state
     = (Inr bad_request, initial_state)
   \<and> handler OpenAI upstream_ok env0 0 0 no_body_request initial_state
     = (bad_request, initial_state)
   \<and> field (req_body no_body_request) ''audience'' = field (JObj []) ''audience''
   \<and> status bad_request = 400"
proof -
  have m1: "req_method empty_audience_request = ''POST''"
    by (simp add: empty_audience_request_def)
  have a1: "\<not> truthy (req_body empty_audience_request)
       \<or> \<not> truthy (field (req_body empty_audience_request) ''audience'')
       \<or> \<not> truthy (field (req_body empty_audience_request) ''goal'')"
    by (simp add: empty_audience_request_def field_def)
  have m2: "req_method no_body_request = ''POST''"
    by (simp add: no_body_request_def)
  have n2: "\<not> truthy (req_body no_body_request)"
    by (simp add: no_body_request_def)
  then have a2: "\<not> truthy (req_body no_body_request)
       \<or> \<not> truthy (field (req_body no_body_request) ''audience'')
       \<or> \<not> truthy (field (req_body no_body_request) ''goal'')"
    by simp
  from falsy_fields_rejected [OF m1 a1, of OpenAI upstream_ok env0 0 0 initial_state]
       falsy_fields_rejected [OF m2 a2, of OpenAI upstream_ok env0 0 0 initial_state "''audience''"]
       n2
  show ?thesis by blast
qed

text \<open>
  C6. The token cache. If the cached token is present and its expiry is strictly after
  the clock, the cached token is returned and no credential exchange is made (the state,
  log included, is unchanged). Otherwise exactly one credential exchange is made; when it
  grants a token, the token is stored with the expiry \<open>now' + 50 * 60 * 1000\<close> (50
  minutes after the reading of the clock at that moment) and returned, and every further
  call of the same process before that expiry returns this token without a new exchange.
\<close>

theorem token_cache:
  "(cache_valid now s \<longrightarrow>
      getRedditAccessToken v w now now' clientId clientSecret s = (token_value (redditToken s), s))
   \<and> (\<not> cache_valid now s \<longrightarrow>
      calls (snd (getRedditAccessToken v w now now' clientId clientSecret s))
        = calls s @ [RedditAccessToken clientId clientSecret (userAgent v)])
   \<and> (\<not> cache_valid now s
       \<and> granted_token (fetch w (length (calls s)) (RedditAccessToken clientId clientSecret (userAgent v)))
           = Some tok \<longrightarrow>
      getRedditAccessToken v w now now' clientId clientSecret s
        = (tok, s\<lparr> calls := calls s @ [RedditAccessToken clientId clientSecret (userAgent v)],
                   redditToken := \<lparr> token_value = tok, expires = now' + 50 * 60 * 1000 \<rparr> \<rparr>)
      \<and> (\<forall>t t'. t < now' + 50 * 60 * 1000 \<longrightarrow>
             getRedditAccessToken v w t t' clientId clientSecret
                 (snd (getRedditAccessToken v w now now' clientId clientSecret s))
               = (tok, snd (getRedditAccessToken v w now now' clientId clientSecret s))))"
proof (intro conjI impI)
  assume "cache_valid now s"
  then show "getRedditAccessToken v w now now' clientId clientSecret s = (token_value (redditToken s), s)"
    by (rule getRedditAccessToken_cached)
next
  assume n: "\<not> cache_valid now s"
  show "calls (snd (getRedditAccessToken v w now now' clientId clientSecret s))
        = calls s @ [RedditAccessToken clientId clientSecret (userAgent v)]"
  proof (cases "granted_token (fetch w (length (calls s)) (RedditAccessToken clientId clientSecret (userAgent v)))")
    case None
    then show ?thesis using getRedditAccessToken_failed [OF n] by simp
  next
    case (Some t)
    then show ?thesis using getRedditAccessToken_granted [OF n] by simp
  qed
next
  assume a: "\<not> cache_valid now s
       \<and> granted_token (fetch w (length (calls s)) (RedditAccessToken clientId clientSecret (userAgent v)))
           = Some tok"
  then show "getRedditAccessToken v w now now' clientId clientSecret s
        = (tok, s\<lparr> calls := calls s @ [RedditAccessToken clientId clientSecret (userAgent v)],
                   redditToken := \<lparr> token_value = tok, expires = now' + 50 * 60 * 1000 \<rparr> \<rparr>)"
    using getRedditAccessToken_granted [of now s w clientId clientSecret v tok now'] by simp
next
  assume a: "\<not> cache_valid now s
       \<and> granted_token (fetch w (length (calls s)) (RedditAccessToken clientId clientSecret (userAgent v)))
           = Some tok"
  let ?s1 = "s\<lparr> calls := calls s @ [RedditAccessToken clientId clientSecret (userAgent v)],
                   redditToken := \<lparr> token_value = tok, expires = now' + 3000000 \<rparr> \<rparr>"
  have g: "getRedditAccessToken v w now now' clientId clientSecret s = (tok, ?s1)"
    using a getRedditAccessToken_granted [of now s w clientId clientSecret v tok now'] by simp
  have tr: "truthy tok" using a granted_token_truthy by blast
  show "\<forall>t t'. t < now' + 50 * 60 * 1000 \<longrightarrow>
             getRedditAccessToken v w t t' clientId clientSecret
                 (snd (getRedditAccessToken v w now now' clientId clientSecret s))
               = (tok, snd (getRedditAccessToken v w now now' clientId clientSecret s))"
  proof (intro allI impI)
    fix t t' :: int
    assume "t < now' + 50 * 60 * 1000"
    then have "cache_valid t ?s1" using tr by (simp add: cache_valid_def)
    then show "getRedditAccessToken v w t t' clientId clientSecret
                 (snd (getRedditAccessToken v w now now' clientId clientSecret s))
               = (tok, snd (getRedditAccessToken v w now now' clientId clientSecret s))"
      using getRedditAccessToken_cached [of t ?s1 v w t' clientId clientSecret] g by simp
  qed
qed

theorem token_cache_witness:
  "cache_valid 1000 cached_state
   \<and> getRedditAccessToken OpenAI upstream_ok 1000 1001 ''id'' ''secret'' cached_state
       = (JStr ''old'', cached_state)
   \<and> \<not> cache_valid 5000 cached_state
   \<and> granted_token (fetch upstream_ok (length (calls cached_state))
         (RedditAccessToken ''id'' ''secret'' (userAgent OpenAI))) = Some (JStr ''tok'')
   \<and> getRedditAccessToken OpenAI upstream_ok 5000 5002 ''id'' ''secret'' cached_state
       = (JStr ''tok'',
          \<lparr> redditToken = \<lparr> token_value = JStr ''tok'', expires = 3005002 \<rparr>,
            calls = [RedditAccessToken ''id'' ''secret'' ''ExonVercel/1.0''] \<rparr>)
   \<and> getRedditAccessToken OpenAI upstream_ok 3005001 3005003 ''id'' ''secret''
         (snd (getRedditAccessToken OpenAI upstream_ok 5000 5002 ''id'' ''secret'' cached_state))
       = (JStr ''tok'', snd (getRedditAccessToken OpenAI upstream_ok 5000 5002 ''id'' ''secret'' cached_state))"
proof -
  have c1: "cache_valid 1000 cached_state" by (simp add: cache_valid_def cached_state_def)
  have c2: "\<not> cache_valid 5000 cached_state" by (simp add: cache_valid_def cached_state_def)
  have g: "granted_token (fetch upstream_ok (length (calls cached_state))
         (RedditAccessToken ''id'' ''secret'' (userAgent OpenAI))) = Some (JStr ''tok'')"
    by (simp add: granted_token_def upstream_ok_def)
  have t: "(3005001::int) < 5002 + 50 * 60 * 1000" by simp
  from token_cache [of 1000 cached_state OpenAI upstream_ok 1001 "''id''" "''secret''" "JStr ''tok''"] c1
  have r1: "getRedditAccessToken OpenAI upstream_ok 1000 1001 ''id'' ''secret'' cached_state
       = (JStr ''old'', cached_state)" by (simp add: cached_state_def)
  from token_cache [of 5000 cached_state OpenAI upstream_ok 5002 "''id''" "''secret''" "JStr ''tok''"] c2 g
  have r2: "getRedditAccessToken OpenAI upstream_ok 5000 5002 ''id'' ''secret'' cached_state
        = (JStr ''tok'', cached_state\<lparr> calls := calls cached_state @ [RedditAccessToken ''id'' ''secret'' (userAgent OpenAI)],
                   redditToken := \<lparr> token_value = JStr ''tok'', expires = 5002 + 50 * 60 * 1000 \<rparr> \<rparr>)"
    and r3: "\<forall>t t'. t < 5002 + 50 * 60 * 1000 \<longrightarrow>
             getRedditAccessToken OpenAI upstream_ok t t' ''id'' ''secret''
                 (snd (getRedditAccessToken OpenAI upstream_ok 5000 5002 ''id'' ''secret'' cached_state))
               = (JStr ''tok'', snd (getRedditAccessToken OpenAI upstream_ok 5000 5002 ''id'' ''secret'' cached_state))"
    by blast+
  have r2': "getRedditAccessToken OpenAI upstream_ok 5000 5002 ''id'' ''secret'' cached_state
       = (JStr ''tok'',
          \<lparr> redditToken = \<lparr> token_value = JStr ''tok'', expires = 3005002 \<rparr>,
            calls = [RedditAccessToken ''id'' ''secret'' ''ExonVercel/1.0''] \<rparr>)"
    unfolding r2 by (simp add: cached_state_def)
  from r3 t have r4: "getRedditAccessToken OpenAI upstream_ok 3005001 3005003 ''id'' ''secret''
         (snd (getRedditAccessToken OpenAI upstream_ok 5000 5002 ''id'' ''secret'' cached_state))
       = (JStr ''tok'', snd (getRedditAccessToken OpenAI upstream_ok 5000 5002 ''id'' ''secret'' cached_state))"
    by blast
  show ?thesis using c1 c2 g r1 r2' r4 by blast
qed

text \<open>
  C9. If the credential exchange grants no token (network error, a body that is not
  JSON, or a body without a truthy \<^verbatim>\<open>access_token\<close>), the token cache is left as it was
  and the call returns \<^verbatim>\<open>null\<close>. The cache changes only when an exchange has granted a
  token, and then it holds that token with its new expiry.
\<close>

theorem failed_exchange_keeps_cache:
  "(granted_token (fetch w (length (calls s)) (RedditAccessToken clientId clientSecret (userAgent v))) = None
      \<longrightarrow> redditToken (snd (getRedditAccessToken v w now now' clientId clientSecret s)) = redditToken s
          \<and> (\<not> cache_valid now s \<longrightarrow>
                fst (getRedditAccessToken v w now now' clientId clientSecret s) = JNull))
   \<and> (redditToken (snd (getRedditAccessToken v w now now' clientId clientSecret s)) \<noteq> redditToken s
      \<longrightarrow> (\<exists>tok. granted_token (fetch w (length (calls s))
                      (RedditAccessToken clientId clientSecret (userAgent v))) = Some tok
                \<and> truthy tok
                \<and> redditToken (snd (getRedditAccessToken v w now now' clientId clientSecret s))
                    = \<lparr> token_value = tok, expires = now' + 50 * 60 * 1000 \<rparr>))"
proof (cases "cache_valid now s")
  case True
  then show ?thesis using getRedditAccessToken_cached [OF True, of v w now' clientId clientSecret] by simp
next
  case False
  show ?thesis
  proof (cases "granted_token (fetch w (length (calls s)) (RedditAccessToken clientId clientSecret (userAgent v)))")
    case None
    then show ?thesis using getRedditAccessToken_failed [OF False None, of now'] by simp
  next
    case (Some tok)
    then show ?thesis
      using getRedditAccessToken_granted [OF False Some, of now'] granted_token_truthy [OF Some] by simp
  qed
qed

theorem failed_exchange_keeps_cache_witness:
  "granted_token (fetch upstream_no_token (length (calls cached_state))
       (RedditAccessToken ''id'' ''secret'' (userAgent OpenAI))) = None
   \<and> \<not> cache_valid 5000 cached_state
   \<and> getRedditAccessToken OpenAI upstream_no_token 5000 5002 ''id'' ''secret'' cached_state
       = (JNull, cached_state\<lparr> calls := [RedditAccessToken ''id'' ''secret'' ''ExonVercel/1.0''] \<rparr>)
   \<and> redditToken (snd (getRedditAccessToken OpenAI upstream_no_token 5000 5002 ''id'' ''secret'' cached_state))
       = \<lparr> token_value = JStr ''old'', expires = 5000 \<rparr>
   \<and> redditToken (snd (getRedditAccessToken OpenAI upstream_ok 5000 5002 ''id'' ''secret'' cached_state))
       \<noteq> redditToken cached_state
   \<and> (\<exists>tok. granted_token (fetch upstream_ok (length (calls cached_state))
                (RedditAccessToken ''id'' ''secret'' (userAgent OpenAI))) = Some tok
          \<and> truthy tok
          \<and> redditToken (snd (getRedditAccessToken OpenAI upstream_ok 5000 5002 ''id'' ''secret'' cached_state))
              = \<lparr> token_value = tok, expires = 5002 + 50 * 60 * 1000 \<rparr>)"
proof -
  have g: "granted_token (fetch upstream_no_token (length (calls cached_state))
       (RedditAccessToken ''id'' ''secret'' (userAgent OpenAI))) = None"
    by (simp add: granted_token_def upstream_no_token_def)
  have c: "\<not> cache_valid 5000 cached_state" by (simp add: cache_valid_def cached_state_def)
  from failed_exchange_keeps_cache [of upstream_no_token cached_state "''id''" "''secret''" OpenAI 5000 5002] g c
  have k: "redditToken (snd (getRedditAccessToken OpenAI upstream_no_token 5000 5002 ''id'' ''secret'' cached_state))
       = redditToken cached_state"
    and n: "fst (getRedditAccessToken OpenAI upstream_no_token 5000 5002 ''id'' ''secret'' cached_state) = JNull"
    by blast+
  have e: "getRedditAccessToken OpenAI upstream_no_token 5000 5002 ''id'' ''secret'' cached_state
       = (JNull, cached_state\<lparr> calls := [RedditAccessToken ''id'' ''secret'' ''ExonVercel/1.0''] \<rparr>)"
    using getRedditAccessToken_failed [OF c g, of 5002] by (simp add: cached_state_def)
  have g': "granted_token (fetch upstream_ok (length (calls cached_state))
       (RedditAccessToken ''id'' ''secret'' (userAgent OpenAI))) = Some (JStr ''tok'')"
    by (simp add: granted_token_def upstream_ok_def)
  have d: "redditToken (snd (getRedditAccessToken OpenAI upstream_ok 5000 5002 ''id'' ''secret'' cached_state))
       \<noteq> redditToken cached_state"
    using getRedditAccessToken_granted [OF c g', of 5002] by (simp add: cached_state_def)
  from failed_exchange_keeps_cache [of upstream_ok cached_state "''id''" "''secret''" OpenAI 5000 5002] d
  have x: "\<exists>tok. granted_token (fetch upstream_ok (length (calls cached_state))
                (RedditAccessToken ''id'' ''secret'' (userAgent OpenAI))) = Some tok
          \<and> truthy tok
          \<and> redditToken (snd (getRedditAccessToken OpenAI upstream_ok 5000 5002 ''id'' ''secret'' cached_state))
              = \<lparr> token_value = tok, expires = 5002 + 50 * 60 * 1000 \<rparr>"
    by blast
  have o: "redditToken (snd (getRedditAccessToken OpenAI upstream_no_token 5000 5002 ''id'' ''secret'' cached_state))
       = \<lparr> token_value = JStr ''old'', expires = 5000 \<rparr>"
    using k by (simp add: cached_state_def)
  show ?thesis using g c e o d x by blast
qed

text \<open>
  C3, as the code has it. For every valid POST request with the four secrets present whose
  search query (the audience, a space, the goal) can be encoded as a URI component, the
  handler issues exactly one keyword search, with the encoded query, and runs
  \<^verbatim>\<open>getChannelVideos\<close> once per element of \<^verbatim>\<open>competitorYouTubeChannels\<close>, in their order:
  the prompt has one entry per channel, and a channel search is sent for each name that
  can be encoded. It makes no credential exchange when the cached token is still valid
  and exactly one otherwise; it calls the completion endpoint once. \<^verbatim>\<open>getSubredditPosts\<close>
  runs once per element of \<^verbatim>\<open>relevantSubreddits\<close> when a token is at hand (\<open>tok\<close>: the
  cached token, or the one granted by the reply to the exchange that the handler made,
  the first credential exchange of its log), and not at all when that exchange granted
  none.
\<close>

theorem handler_upstream_calls:
  assumes "valid_request (req_body req) a g cs ss" and "config_present v env"
    and "req_method req = ''POST''"
    and "\<not> lone_surrogate (a @ '' '' @ g)"
  shows "\<exists>q tok tv cv rp.
     encodeURIComponent (a @ '' '' @ g) = Inr q
   \<and> calls_to KeywordSearch (handler_calls v w env now now' req s)
        = [YouTubeVideoSearch q 3 (secret (YOUTUBE_API_KEY env))]
   \<and> calls_to ChannelSearch (handler_calls v w env now now' req s)
        = channel_searches (secret (YOUTUBE_API_KEY env)) cs
   \<and> map channel cv = map JStr cs
   \<and> calls_to TokenExchange (handler_calls v w env now now' req s)
        = (if cache_valid now s then []
           else [RedditAccessToken (secret (REDDIT_CLIENT_ID env)) (secret (REDDIT_CLIENT_SECRET env))
                   (userAgent v)])
   \<and> tok = (if cache_valid now s then token_value (redditToken s)
            else (case granted_token
                         (replies w s (handler_calls v w env now now' req s)
                            ! exchange_index (handler_calls v w env now now' req s)) of
                    None \<Rightarrow> JNull
                  | Some t \<Rightarrow> t))
   \<and> calls_to SubredditHot (handler_calls v w env now now' req s)
        = (if truthy tok
           then map (\<lambda>sub. RedditHot (replace sub ''r/'' []) (toString tok) 3 (userAgent v)) ss
           else [])
   \<and> (if truthy tok then map subreddit rp = map JStr ss else rp = [])
   \<and> calls_to Completion (handler_calls v w env now now' req s)
        = [llm_request v (masterPrompt v (JStr a) (JStr g) tv cv rp) (secret (llm_key v env))]"
proof -
  let ?hc = "handler_calls v w env now now' req s"
  let ?x = "RedditAccessToken (secret (REDDIT_CLIENT_ID env)) (secret (REDDIT_CLIENT_SECRET env))
              (userAgent v)"
  obtain q where q: "encodeURIComponent (a @ '' '' @ g) = Inr q"
    using encodeURIComponent_total [OF assms(4)] by blast
  obtain tv cv tok tk rp where
      m2: "map channel cv = map JStr cs"
    and w1: "cache_valid now s \<longrightarrow> tok = token_value (redditToken s) \<and> truthy tok \<and> tk = redditToken s"
    and w2: "\<not> cache_valid now s \<longrightarrow>
          (case granted_token (fetch w (length (calls s) + exchange_index ?hc) ?x) of
             None \<Rightarrow> tok = JNull \<and> tk = redditToken s
           | Some t \<Rightarrow> tok = t \<and> truthy t \<and> tk = \<lparr> token_value = t, expires = now' + 3000000 \<rparr>)"
    and rp: "if truthy tok then map subreddit rp = map JStr ss else rp = []"
    and k1: "calls_to KeywordSearch ?hc = [YouTubeVideoSearch q 3 (secret (YOUTUBE_API_KEY env))]"
    and k2: "calls_to ChannelSearch ?hc = channel_searches (secret (YOUTUBE_API_KEY env)) cs"
    and k3: "calls_to TokenExchange ?hc = (if cache_valid now s then [] else [?x])"
    and k4: "calls_to SubredditHot ?hc
        = (if truthy tok
           then map (\<lambda>sub. RedditHot (replace sub ''r/'' []) (toString tok) 3 (userAgent v)) ss
           else [])"
    and k5: "calls_to Completion ?hc
        = [llm_request v (masterPrompt v (JStr a) (JStr g) tv cv rp) (secret (llm_key v env))]"
    using handler_calls_by_endpoint [OF assms(1-3) q, where now = now and s = s and w = w
        and now' = now']
    by blast
  have r: "replies w s ?hc ! exchange_index ?hc
      = fetch w (length (calls s) + exchange_index ?hc) ?x" if "\<not> cache_valid now s"
  proof -
    have x: "calls_to TokenExchange ?hc = [?x]" using k3 that by simp
    show ?thesis
      using replies_nth [OF exchange_index_nth(1) [OF x], of w s] exchange_index_nth(2) [OF x]
      by simp
  qed
  have t: "tok = (if cache_valid now s then token_value (redditToken s)
            else (case granted_token (replies w s ?hc ! exchange_index ?hc) of
                    None \<Rightarrow> JNull
                  | Some t \<Rightarrow> t))"
    using w1 w2 r by (auto split: option.splits)
  from q k1 k2 m2 k3 t k4 rp k5 show ?thesis by blast
qed

theorem handler_upstream_calls_witness:
  "calls_to KeywordSearch (handler_calls OpenAI upstream_ok env0 0 0 fitness_request initial_state)
        = [YouTubeVideoSearch ''fitness%20beginners%20grow%20a%20YouTube%20channel'' 3 ''yt-key'']
   \<and> calls_to ChannelSearch (handler_calls OpenAI upstream_ok env0 0 0 fitness_request initial_state)
        = [YouTubeChannelSearch ''Athlean-X'' ''yt-key'']
   \<and> calls_to TokenExchange (handler_calls OpenAI upstream_ok env0 0 0 fitness_request initial_state)
        = [RedditAccessToken ''id'' ''secret'' ''ExonVercel/1.0'']
   \<and> calls_to SubredditHot (handler_calls OpenAI upstream_ok env0 0 0 fitness_request initial_state)
        = [RedditHot ''fitness'' ''tok'' 3 ''ExonVercel/1.0'']
   \<and> length (calls_to Completion (handler_calls OpenAI upstream_ok env0 0 0 fitness_request initial_state)) = 1"
proof -
  let ?hc = "handler_calls OpenAI upstream_ok env0 0 0 fitness_request initial_state"
  have nc: "\<not> cache_valid 0 initial_state" by (simp add: cache_valid_def initial_state_def)
  have gr: "granted_token (replies upstream_ok initial_state ?hc ! exchange_index ?hc)
      = Some (JStr ''tok'')"
    by code_simp
  have cs: "channel_searches (secret (YOUTUBE_API_KEY env0)) [''Athlean-X'']
      = [YouTubeChannelSearch ''Athlean-X'' ''yt-key'']"
    by (simp add: channel_searches_def channel_search_def athlean_x env0_def)
  from handler_upstream_calls [OF fitness_request_valid env0_present fitness_request_post
      fitness_encodable, of OpenAI upstream_ok 0 0 initial_state]
  obtain q tok tv cv rp where
      q: "encodeURIComponent (''fitness beginners'' @ '' '' @ ''grow a YouTube channel'') = Inr q"
    and k1: "calls_to KeywordSearch ?hc = [YouTubeVideoSearch q 3 (secret (YOUTUBE_API_KEY env0))]"
    and k2: "calls_to ChannelSearch ?hc = channel_searches (secret (YOUTUBE_API_KEY env0)) [''Athlean-X'']"
    and k3: "calls_to TokenExchange ?hc
        = (if cache_valid 0 initial_state then []
           else [RedditAccessToken (secret (REDDIT_CLIENT_ID env0)) (secret (REDDIT_CLIENT_SECRET env0))
                   (userAgent OpenAI)])"
    and t: "tok = (if cache_valid 0 initial_state then token_value (redditToken initial_state)
            else (case granted_token (replies upstream_ok initial_state ?hc ! exchange_index ?hc) of
                    None \<Rightarrow> JNull
                  | Some t \<Rightarrow> t))"
    and k4: "calls_to SubredditHot ?hc
        = (if truthy tok
           then map (\<lambda>sub. RedditHot (replace sub ''r/'' []) (toString tok) 3 (userAgent OpenAI))
                  [''r/fitness'']
           else [])"
    and k5: "calls_to Completion ?hc
        = [llm_request OpenAI (masterPrompt OpenAI (JStr ''fitness beginners'')
             (JStr ''grow a YouTube channel'') tv cv rp) (secret (llm_key OpenAI env0))]"
    by blast
  have q': "q = ''fitness%20beginners%20grow%20a%20YouTube%20channel''"
    using q fitness_query by simp
  have tok: "tok = JStr ''tok''"
    using t nc gr by simp
  have a1: "calls_to KeywordSearch ?hc
      = [YouTubeVideoSearch ''fitness%20beginners%20grow%20a%20YouTube%20channel'' 3 ''yt-key'']"
    using k1 q' by (simp add: env0_def)
  have a2: "calls_to ChannelSearch ?hc = [YouTubeChannelSearch ''Athlean-X'' ''yt-key'']"
    using k2 cs by simp
  have a3: "calls_to TokenExchange ?hc = [RedditAccessToken ''id'' ''secret'' ''ExonVercel/1.0'']"
    using k3 nc by (simp add: env0_def)
  have a4: "calls_to SubredditHot ?hc = [RedditHot ''fitness'' ''tok'' 3 ''ExonVercel/1.0'']"
    using k4 tok by simp
  have a5: "length (calls_to Completion ?hc) = 1"
    using k5 by simp
  show ?thesis using a1 a2 a3 a4 a5 by blast
qed

text \<open>
  C3 as stated fails: the request of the specification has one subreddit, and when the
  credential exchange fails on the network no subreddit is fetched at all (the request is
  still answered with 200).
\<close>

theorem handler_upstream_calls_counterexample:
  "valid_request (req_body fitness_request) ''fitness beginners'' ''grow a YouTube channel''
     [''Athlean-X''] [''r/fitness'']
   \<and> config_present OpenAI env0
   \<and> req_method fitness_request = ''POST''
   \<and> elements (field (req_body fitness_request) ''relevantSubreddits'') = [JStr ''r/fitness'']
   \<and> calls_to SubredditHot (handler_calls OpenAI upstream_no_token env0 0 0 fitness_request initial_state)
       = []
   \<and> status (fst (handler OpenAI upstream_no_token env0 0 0 fitness_request initial_state)) = 200"
proof -
  have e: "elements (field (req_body fitness_request) ''relevantSubreddits'') = [JStr ''r/fitness'']"
    by (simp add: fitness_request_def field_def)
  have c: "calls_to SubredditHot (handler_calls OpenAI upstream_no_token env0 0 0 fitness_request initial_state)
       = []"
    by code_simp
  have s: "status (fst (handler OpenAI upstream_no_token env0 0 0 fitness_request initial_state)) = 200"
    by code_simp
  show ?thesis
    using fitness_request_valid env0_present [of OpenAI] fitness_request_post e c s by blast
qed

text \<open>
  C7 fails in the code: a failed credential exchange is not fatal, but a valid request is
  not always taken to synthesis. \<^verbatim>\<open>searchYouTubeVideos\<close> encodes its query before its
  \<^verbatim>\<open>try\<close>, so for every valid POST request whose audience or goal holds an unpaired
  surrogate the keyword search rejects, whatever the credential exchange does: the handler
  answers 500 with the details \<^verbatim>\<open>URI malformed\<close>, it sends no keyword search, and it
  never calls the completion endpoint.
\<close>

theorem unencodable_query_fatal:
  assumes "valid_request (req_body req) a g cs ss" and "config_present v env"
    and "req_method req = ''POST''"
    and "lone_surrogate a \<or> lone_surrogate g"
  shows "fst (handler v w env now now' req s)
        = \<lparr> status = 500, headers = cors_headers,
            body = Some (JObj [(''error'', JStr ''An internal server error occurred.''),
                               (''details'', JStr ''URI malformed'')]) \<rparr>
   \<and> calls_to KeywordSearch (handler_calls v w env now now' req s) = []
   \<and> calls_to Completion (handler_calls v w env now now' req s) = []"
proof -
  have ls: "lone_surrogate (a @ '' '' @ g)"
    using assms(4) lone_surrogate_query [of a g] by blast
  show ?thesis
    using handler_unencodable [OF assms(1-3) ls, of w now now' s]
    by (simp add: internal_error_def)
qed

theorem unencodable_query_fatal_witness:
  "valid_request (req_body surrogate_request) [CHR 0xED, CHR 0xA0, CHR 0x80]
     ''grow a YouTube channel'' [''Athlean-X''] [''r/fitness'']
   \<and> \<not> cache_valid 0 initial_state
   \<and> calls_to TokenExchange (handler_calls OpenAI upstream_no_token env0 0 0 surrogate_request initial_state)
       = [RedditAccessToken ''id'' ''secret'' ''ExonVercel/1.0'']
   \<and> (\<forall>n. granted_token (fetch upstream_no_token n
                 (RedditAccessToken ''id'' ''secret'' ''ExonVercel/1.0'')) = None)
   \<and> fst (getRedditAccessToken OpenAI upstream_no_token 0 0 ''id'' ''secret'' initial_state) = JNull
   \<and> fst (handler OpenAI upstream_no_token env0 0 0 surrogate_request initial_state)
       = \<lparr> status = 500, headers = cors_headers,
           body = Some (JObj [(''error'', JStr ''An internal server error occurred.''),
                              (''details'', JStr ''URI malformed'')]) \<rparr>
   \<and> calls_to KeywordSearch (handler_calls OpenAI upstream_no_token env0 0 0 surrogate_request initial_state)
       = []
   \<and> calls_to Completion (handler_calls OpenAI upstream_no_token env0 0 0 surrogate_request initial_state)
       = []"
proof -
  have ls: "lone_surrogate [CHR 0xED, CHR 0xA0, CHR 0x80] \<or> lone_surrogate ''grow a YouTube channel''"
    by simp
  have nc: "\<not> cache_valid 0 initial_state" by (simp add: cache_valid_def initial_state_def)
  have te: "calls_to TokenExchange (handler_calls OpenAI upstream_no_token env0 0 0 surrogate_request initial_state)
       = [RedditAccessToken ''id'' ''secret'' ''ExonVercel/1.0'']"
    by code_simp
  have gr: "\<forall>n. granted_token (fetch upstream_no_token n
                 (RedditAccessToken ''id'' ''secret'' ''ExonVercel/1.0'')) = None"
    by (simp add: granted_token_def upstream_no_token_def)
  have gt: "fst (getRedditAccessToken OpenAI upstream_no_token 0 0 ''id'' ''secret'' initial_state) = JNull"
    using getRedditAccessToken_failed [OF nc, of upstream_no_token "''id''" "''secret''" OpenAI 0] gr
    by simp
  from unencodable_query_fatal [OF surrogate_request_valid env0_present surrogate_request_post ls,
      of OpenAI upstream_no_token 0 0 initial_state]
  show ?thesis
    using surrogate_request_valid nc te gr gt by simp
qed

text \<open>
  C5. For every prompt and key: when the reply of the completion endpoint has a status
  that is not a success, or a content that is not JSON text (or is unusable in any other
  way), the synthesizer raises its one error, whose message starts with
  \<^verbatim>\<open>Failed to get a valid response\<close>, after a single request (nothing is retried).
  The handler, for a valid request with the secrets present that reaches the completion
  call (its search query can be encoded as a URI component), then answers 500 with a body
  that holds the two fixed fields \<^verbatim>\<open>error\<close> and \<^verbatim>\<open>details\<close> and nothing of what was fetched.
\<close>

theorem synthesis_failure:
  "(bad_completion OpenAI w (fetch w (length (calls s0)) (OpenAIChatCompletion p k)) \<longrightarrow>
      callOpenAI_API w p k s0
        = (Inl (Error openai_failure), s0\<lparr> calls := calls s0 @ [OpenAIChatCompletion p k] \<rparr>))
   \<and> (bad_completion Gemini w (fetch w (length (calls s0)) (GeminiGenerateContent p k)) \<longrightarrow>
      callGeminiAPI w p k s0
        = (Inl (Error gemini_failure), s0\<lparr> calls := calls s0 @ [GeminiGenerateContent p k] \<rparr>))
   \<and> take 30 openai_failure = ''Failed to get a valid response''
   \<and> take 30 gemini_failure = ''Failed to get a valid response''
   \<and> (valid_request (req_body req) a g cs ss \<and> config_present v env \<and> req_method req = ''POST''
       \<and> \<not> lone_surrogate (a @ '' '' @ g)
       \<and> (\<forall>n q. bad_completion v w (fetch w n (llm_request v q (secret (llm_key v env))))) \<longrightarrow>
      fst (handler v w env now now' req s)
        = \<lparr> status = 500, headers = cors_headers,
            body = Some (JObj [(''error'', JStr ''An internal server error occurred.''),
                               (''details'', JStr (llm_failure v))]) \<rparr>
      \<and> length (calls_to Completion (handler_calls v w env now now' req s)) = 1)"
proof (intro conjI impI)
  assume "bad_completion OpenAI w (fetch w (length (calls s0)) (OpenAIChatCompletion p k))"
  then show "callOpenAI_API w p k s0
        = (Inl (Error openai_failure), s0\<lparr> calls := calls s0 @ [OpenAIChatCompletion p k] \<rparr>)"
    using callLLM_failure [of OpenAI w s0 p k] by simp
next
  assume "bad_completion Gemini w (fetch w (length (calls s0)) (GeminiGenerateContent p k))"
  then show "callGeminiAPI w p k s0
        = (Inl (Error gemini_failure), s0\<lparr> calls := calls s0 @ [GeminiGenerateContent p k] \<rparr>)"
    using callLLM_failure [of Gemini w s0 p k] by simp
next
  show "take 30 openai_failure = ''Failed to get a valid response''"
    by (simp add: openai_failure_def)
next
  show "take 30 gemini_failure = ''Failed to get a valid response''"
    by (simp add: gemini_failure_def)
next
  assume h: "valid_request (req_body req) a g cs ss \<and> config_present v env \<and> req_method req = ''POST''
       \<and> \<not> lone_surrogate (a @ '' '' @ g)
       \<and> (\<forall>n q. bad_completion v w (fetch w n (llm_request v q (secret (llm_key v env)))))"
  let ?key = "secret (llm_key v env)"
  let ?hc = "handler_calls v w env now now' req s"
  obtain q where q: "encodeURIComponent (a @ '' '' @ g) = Inr q"
    using encodeURIComponent_total [of "a @ '' '' @ g"] h by blast
  obtain tv cv tk rp where
      k5: "calls_to Completion ?hc = [llm_request v (masterPrompt v (JStr a) (JStr g) tv cv rp) ?key]"
    and f: "fst (handler v w env now now' req s)
        = (case fst (callLLM v w (masterPrompt v (JStr a) (JStr g) tv cv rp) ?key
                      (s\<lparr> calls := calls s @ butlast ?hc, redditToken := tk \<rparr>)) of
             Inl e \<Rightarrow> internal_error e
           | Inr r \<Rightarrow> success r)"
    using handler_calls_by_endpoint [where req = req and a = a and g = g and cs = cs and ss = ss
        and v = v and env = env and now = now and s = s and w = w and now' = now' and q = q] h q
    by blast
  let ?s3 = "s\<lparr> calls := calls s @ butlast ?hc, redditToken := tk \<rparr>"
  let ?p = "masterPrompt v (JStr a) (JStr g) tv cv rp"
  have "bad_completion v w (fetch w (length (calls ?s3)) (llm_request v ?p ?key))"
    using h by blast
  then have "fst (callLLM v w ?p ?key ?s3) = Inl (Error (llm_failure v))"
    using callLLM_failure [of v w ?s3 ?p ?key] by simp
  then have "fst (handler v w env now now' req s) = internal_error (Error (llm_failure v))"
    using f by simp
  then show "fst (handler v w env now now' req s)
        = \<lparr> status = 500, headers = cors_headers,
            body = Some (JObj [(''error'', JStr ''An internal server error occurred.''),
                               (''details'', JStr (llm_failure v))]) \<rparr>"
    by (simp add: internal_error_def)
  show "length (calls_to Completion ?hc) = 1"
    using k5 by simp
qed

theorem synthesis_failure_witness:
  "callOpenAI_API upstream_llm_down ''prompt'' ''llm-key'' initial_state
     = (Inl (Error openai_failure), initial_state\<lparr> calls := [OpenAIChatCompletion ''prompt'' ''llm-key''] \<rparr>)
   \<and> callGeminiAPI upstream_llm_down ''prompt'' ''llm-key'' initial_state
     = (Inl (Error gemini_failure), initial_state\<lparr> calls := [GeminiGenerateContent ''prompt'' ''llm-key''] \<rparr>)
   \<and> fst (handler OpenAI upstream_llm_down env0 0 0 fitness_request initial_state)
     = \<lparr> status = 500, headers = cors_headers,
         body = Some (JObj [(''error'', JStr ''An internal server error occurred.''),
                            (''details'', JStr ''Failed to get a valid response from the OpenAI API.'')]) \<rparr>
   \<and> length (calls_to Completion (handler_calls OpenAI upstream_llm_down env0 0 0 fitness_request initial_state)) = 1
   \<and> callOpenAI_API upstream_llm_prose ''prompt'' ''llm-key'' initial_state
     = (Inl (Error openai_failure), initial_state\<lparr> calls := [OpenAIChatCompletion ''prompt'' ''llm-key''] \<rparr>)"
proof -
  have p1: "bad_completion OpenAI upstream_llm_prose
      (fetch upstream_llm_prose (length (calls initial_state)) (OpenAIChatCompletion ''prompt'' ''llm-key''))"
    by (simp add: upstream_llm_prose_def openai_content_def parse_braces_def)
  have p2: "callOpenAI_API upstream_llm_prose ''prompt'' ''llm-key'' initial_state
     = (Inl (Error openai_failure),
        initial_state\<lparr> calls := calls initial_state @ [OpenAIChatCompletion ''prompt'' ''llm-key''] \<rparr>)"
    using synthesis_failure [where w = upstream_llm_prose and ?s0.0 = initial_state
        and p = "''prompt''" and k = "''llm-key''"] p1
    by blast
  have b1: "bad_completion v upstream_llm_down (fetch upstream_llm_down n (llm_request v q k))" for v n q k
    by (cases v) (simp_all add: upstream_llm_down_def)
  have b2: "\<forall>n q. bad_completion OpenAI upstream_llm_down
       (fetch upstream_llm_down n (llm_request OpenAI q (secret (llm_key OpenAI env0))))"
    using b1 by blast
  have h: "valid_request (req_body fitness_request) ''fitness beginners'' ''grow a YouTube channel''
       [''Athlean-X''] [''r/fitness'']
     \<and> config_present OpenAI env0 \<and> req_method fitness_request = ''POST''
     \<and> \<not> lone_surrogate (''fitness beginners'' @ '' '' @ ''grow a YouTube channel'')
     \<and> (\<forall>n q. bad_completion OpenAI upstream_llm_down
          (fetch upstream_llm_down n (llm_request OpenAI q (secret (llm_key OpenAI env0)))))"
    using fitness_request_valid env0_present fitness_request_post fitness_encodable b2 by blast
  from synthesis_failure [of upstream_llm_down initial_state "''prompt''" "''llm-key''"
      fitness_request "''fitness beginners''" "''grow a YouTube channel''" "[''Athlean-X'']"
      "[''r/fitness'']" OpenAI env0 0 0 initial_state]
    h b1 [of OpenAI "length (calls initial_state)" "''prompt''" "''llm-key''"]
    b1 [of Gemini "length (calls initial_state)" "''prompt''" "''llm-key''"]
  show ?thesis
    using p2 by (simp add: initial_state_def openai_failure_def)
qed

text \<open>
  C8, as the code has it. In both copies each of the three data sections of the prompt is
  non-empty, and the prompt is the fixed template around them. A section shows the
  placeholder (\<^verbatim>\<open>No data collected.\<close> in the first copy, \<^verbatim>\<open>N/A\<close> in the second) when its
  joined text is empty: for the top videos when there is no video (or no title text at
  all), for the competitors exactly when the list of channels is empty, for Reddit exactly
  when no subreddit entry was collected. A channel or subreddit whose fetch yielded nothing
  still contributes its name followed by \<^verbatim>\<open>: \<close>, and no placeholder stands for it.
\<close>

theorem prompt_sections:
  "topSection v tv \<noteq> [] \<and> competitorSection v cv \<noteq> [] \<and> redditSection v rp \<noteq> []
   \<and> topSection v [] = placeholder v
   \<and> (topVideoTitles tv = [] \<longrightarrow> topSection v tv = placeholder v)
   \<and> (topVideoTitles tv \<noteq> [] \<longrightarrow> topSection v tv = topVideoTitles tv)
   \<and> (competitorSection v cv = (if cv = [] then placeholder v else competitorVideoTitles cv))
   \<and> (redditSection v rp = (if rp = [] then placeholder v else redditPostTitles rp))
   \<and> competitorVideoTitles (ChannelVideos c [] # cv')
       = toString c @ '': '' @ (if cv' = [] then [] else '' | '' @ competitorVideoTitles cv')
   \<and> redditPostTitles (SubredditPosts c [] # rp')
       = toString c @ '': '' @ (if rp' = [] then [] else '' | '' @ redditPostTitles rp')
   \<and> masterPrompt v a g tv cv rp
       = prompt_intro v @ toString a
         @ ''\<newline>- Primary Goal: '' @ toString g
         @ ''\<newline>\<newline>Live Data Collected:''
         @ ''\<newline>- Top YouTube Videos: '' @ topSection v tv
         @ ''\<newline>- Competitor YouTube Videos: '' @ competitorSection v cv
         @ ''\<newline>- Top Reddit Posts: '' @ redditSection v rp
         @ prompt_schema v"
proof -
  have n: "topSection v tv \<noteq> []" "competitorSection v cv \<noteq> []" "redditSection v rp \<noteq> []"
    by (simp_all add: topSection_def competitorSection_def redditSection_def or_default_nonempty
        placeholder_nonempty)
  have t: "topSection v [] = placeholder v"
    "topVideoTitles tv = [] \<longrightarrow> topSection v tv = placeholder v"
    "topVideoTitles tv \<noteq> [] \<longrightarrow> topSection v tv = topVideoTitles tv"
    by (simp_all add: topSection_def topVideoTitles_def array_join_def or_default_def)
  have c: "competitorSection v cv = (if cv = [] then placeholder v else competitorVideoTitles cv)"
    using competitorVideoTitles_empty [of cv] by (simp add: competitorSection_def or_default_def)
  have r: "redditSection v rp = (if rp = [] then placeholder v else redditPostTitles rp)"
    using redditPostTitles_empty [of rp] by (simp add: redditSection_def or_default_def)
  have e1: "competitorVideoTitles (ChannelVideos c [] # cv')
       = toString c @ '': '' @ (if cv' = [] then [] else '' | '' @ competitorVideoTitles cv')"
    by (cases cv') (simp_all add: competitorVideoTitles_def array_join_def)
  have e2: "redditPostTitles (SubredditPosts c [] # rp')
       = toString c @ '': '' @ (if rp' = [] then [] else '' | '' @ redditPostTitles rp')"
    by (cases rp') (simp_all add: redditPostTitles_def array_join_def)
  have m: "masterPrompt v a g tv cv rp
       = prompt_intro v @ toString a
         @ ''\<newline>- Primary Goal: '' @ toString g
         @ ''\<newline>\<newline>Live Data Collected:''
         @ ''\<newline>- Top YouTube Videos: '' @ topSection v tv
         @ ''\<newline>- Competitor YouTube Videos: '' @ competitorSection v cv
         @ ''\<newline>- Top Reddit Posts: '' @ redditSection v rp
         @ prompt_schema v"
    by (simp only: masterPrompt_def)
  show ?thesis using n t c r e1 e2 m by blast
qed

theorem prompt_sections_witness:
  "topSection Gemini [Video (JStr ''Video A''), Video (JStr ''Video B'')] = ''Video A, Video B''
   \<and> topSection Gemini [Video (JStr [])] = ''N/A''
   \<and> competitorSection OpenAI [] = ''No data collected.''
   \<and> redditSection OpenAI [] = ''No data collected.''
   \<and> competitorSection Gemini [ChannelVideos (JStr ''Athlean-X'') [Video (JStr ''Video C'')]]
       = ''Athlean-X: Video C''"
proof -
  have a: "topVideoTitles [Video (JStr ''Video A''), Video (JStr ''Video B'')] = ''Video A, Video B''"
    by (simp add: topVideoTitles_def array_join_def)
  have b: "topVideoTitles [Video (JStr [])] = []"
    by (simp add: topVideoTitles_def array_join_def)
  have c: "competitorVideoTitles [ChannelVideos (JStr ''Athlean-X'') [Video (JStr ''Video C'')]]
       = ''Athlean-X: Video C''"
    by (simp add: competitorVideoTitles_def array_join_def)
  from prompt_sections [of Gemini "[Video (JStr ''Video A''), Video (JStr ''Video B'')]"
        "[ChannelVideos (JStr ''Athlean-X'') [Video (JStr ''Video C'')]]" "[]"]
    prompt_sections [of Gemini "[Video (JStr [])]" "[]" "[]"]
    prompt_sections [of OpenAI "[]" "[]" "[]"]
    a b c
  show ?thesis by simp
qed

text \<open>
  C8 as stated fails: when the one competitor channel yields no video, its section of the
  prompt reads \<^verbatim>\<open>Athlean-X: \<close> and not the placeholder.
\<close>

theorem prompt_sections_counterexample:
  "fst (getChannelVideos upstream_no_channel (JStr ''Athlean-X'') ''yt-key'' 3 initial_state) = []
   \<and> competitorSection OpenAI [ChannelVideos (JStr ''Athlean-X'') []] = ''Athlean-X: ''
   \<and> competitorSection OpenAI [ChannelVideos (JStr ''Athlean-X'') []] \<noteq> placeholder OpenAI
   \<and> competitorSection Gemini [ChannelVideos (JStr ''Athlean-X'') []] \<noteq> placeholder Gemini"
  by (simp add: competitorSection_def competitorVideoTitles_def array_join_def or_default_def
      getChannelVideos_def athlean_x do_fetch_def initial_state_def upstream_no_channel_def)



end
